theory Spec2Isabelle
  imports Complex_Main "HOL-Library.State_Monad"
begin

section \<open>The PLS-SB regression of \<open>regressions/pls_sb.py\<close>\<close>

text \<open>
  The class \<open>PLS_SB\<close> fits a latent-variable regression in its constructor and offers two
  prediction methods. The embedding follows the source statement by statement. Arithmetic
  is exact (real numbers instead of rounded doubles); the one floating-point effect that
  exact arithmetic cannot ignore, a division by zero that yields \<open>nan\<close> or \<open>inf\<close> instead
  of raising, is kept in the model.
\<close>

subsection \<open>Exceptions\<close>

text \<open>
  \<open>ParameterError\<close> is the exception the module raises itself. The two library routines
  the constructor calls, \<open>linalg.eigh\<close> and \<open>linalg.inv\<close>, raise exceptions of their own
  (\<open>LinAlgError\<close>, \<open>ValueError\<close>), which the constructor lets through.
\<close>

datatype error = ParameterError string | LibraryError string

subsection \<open>Array elements\<close>

text \<open>
  An element of a float array is a finite number or one of the non-finite values \<open>nan\<close>,
  \<open>inf\<close>, \<open>-inf\<close>. The three non-finite values are not told apart: every sum, difference
  and product with a non-finite operand is non-finite again, and so is a non-finite value
  divided by a finite one. Division is only modelled for a finite divisor, which is all the
  source needs when the calibration data are finite: a finite divisor that is zero gives a
  non-finite quotient (numpy warns and goes on, it does not raise).
\<close>

datatype flt = Fin real | NonFinite

instantiation flt :: "{comm_monoid_add, minus, times}"
begin

fun plus_flt :: "flt \<Rightarrow> flt \<Rightarrow> flt" where
  "plus_flt (Fin a) (Fin b) = Fin (a + b)"
| "plus_flt _ _ = NonFinite"

fun minus_flt :: "flt \<Rightarrow> flt \<Rightarrow> flt" where
  "minus_flt (Fin a) (Fin b) = Fin (a - b)"
| "minus_flt _ _ = NonFinite"

fun times_flt :: "flt \<Rightarrow> flt \<Rightarrow> flt" where
  "times_flt (Fin a) (Fin b) = Fin (a * b)"
| "times_flt _ _ = NonFinite"

definition zero_flt :: flt where
  "zero_flt = Fin 0"

instance
proof
  fix x y z :: flt
  show "0 + x = x"
    by (cases x) (simp_all add: zero_flt_def)
  show "x + y = y + x"
    by (cases x; cases y) simp_all
  show "x + y + z = x + (y + z)"
    by (cases x; cases y; cases z) simp_all
qed

end

fun fdiv :: "flt \<Rightarrow> real \<Rightarrow> flt" where
  "fdiv (Fin a) d = (if d = 0 then NonFinite else Fin (a / d))"
| "fdiv NonFinite d = NonFinite"

subsection \<open>Arrays\<close>

text \<open>
  A one-dimensional array is a list. A two-dimensional array carries its number of columns
  beside its rows, so that an array with no rows still has a width, as \<open>Z.shape[1]\<close> has
  for a batch of zero rows. Every \<open>ndarray\<close> is rectangular: \<open>wf\<close>.
\<close>

record 'a ndarray =
  ncols :: nat
  rows :: "'a list list"

definition wf :: "'a ndarray \<Rightarrow> bool" where
  "wf M = list_all (\<lambda>r. length r = ncols M) (rows M)"

definition shape0 :: "'a ndarray \<Rightarrow> nat" where
  "shape0 M = length (rows M)"

definition shape1 :: "'a ndarray \<Rightarrow> nat" where
  "shape1 M = ncols M"

text \<open>\<open>M[i, :]\<close> and \<open>M[:, j]\<close>, for indices in range.\<close>

definition row :: "'a ndarray \<Rightarrow> nat \<Rightarrow> 'a list" where
  "row M i = rows M ! i"

definition col :: "'a ndarray \<Rightarrow> nat \<Rightarrow> 'a list" where
  "col M j = map (\<lambda>r. r ! j) (rows M)"

text \<open>\<open>M.T\<close>\<close>

definition transpose_nd :: "'a ndarray \<Rightarrow> 'a ndarray" where
  "transpose_nd M = \<lparr>ncols = shape0 M, rows = map (col M) [0..<ncols M]\<rparr>"

text \<open>
  The products \<open>u @ v\<close>, \<open>v @ M\<close> and \<open>A @ B\<close>. numpy raises a \<open>ValueError\<close> when the inner
  dimensions differ; every product of the source is between arrays whose inner dimensions
  agree when the inputs are rectangular and the library routines return arrays of the
  shape they document, and only that case is modelled.
\<close>

definition dot :: "'a::{comm_monoid_add, times} list \<Rightarrow> 'a list \<Rightarrow> 'a" where
  "dot u v = sum_list (map2 (*) u v)"

definition vecmat :: "'a::{comm_monoid_add, times} list \<Rightarrow> 'a ndarray \<Rightarrow> 'a list" where
  "vecmat v M = map (\<lambda>j. dot v (col M j)) [0..<ncols M]"

definition matmul :: "'a::{comm_monoid_add, times} ndarray \<Rightarrow> 'a ndarray \<Rightarrow> 'a ndarray" where
  "matmul A B = \<lparr>ncols = ncols B, rows = map (\<lambda>r. vecmat r B) (rows A)\<rparr>"

text \<open>Elementwise operations on one-dimensional arrays of equal length.\<close>

definition vadd :: "'a::plus list \<Rightarrow> 'a list \<Rightarrow> 'a list" where
  "vadd u v = map2 (+) u v"

definition vsub :: "'a::minus list \<Rightarrow> 'a list \<Rightarrow> 'a list" where
  "vsub u v = map2 (-) u v"

definition smul :: "'a::times \<Rightarrow> 'a list \<Rightarrow> 'a list" where
  "smul c v = map (\<lambda>x. c * x) v"

text \<open>
  \<open>M - v\<close> and \<open>M / v\<close> for a two-dimensional \<open>M\<close> and a one-dimensional \<open>v\<close> as long as a
  row of \<open>M\<close>: broadcasting applies the operation to every row.
\<close>

definition sub_rows :: "real ndarray \<Rightarrow> real list \<Rightarrow> real ndarray" where
  "sub_rows M v = \<lparr>ncols = ncols M, rows = map (\<lambda>r. vsub r v) (rows M)\<rparr>"

definition vdiv :: "flt list \<Rightarrow> real list \<Rightarrow> flt list" where
  "vdiv u d = map2 fdiv u d"

definition div_rows :: "flt ndarray \<Rightarrow> real list \<Rightarrow> flt ndarray" where
  "div_rows M d = \<lparr>ncols = ncols M, rows = map (\<lambda>r. vdiv r d) (rows M)\<rparr>"

text \<open>
  A finite array read as a float array. The source has one array type; the model keeps
  the arrays that are computed without a division in the reals.
\<close>

definition fin_vec :: "real list \<Rightarrow> flt list" where
  "fin_vec v = map Fin v"

definition fin_nd :: "real ndarray \<Rightarrow> flt ndarray" where
  "fin_nd M = \<lparr>ncols = ncols M, rows = map fin_vec (rows M)\<rparr>"

text \<open>
  \<open>M.mean(0)\<close>, the mean of every column. The constructor takes it after its checks, when
  \<open>M\<close> has at least one row.
\<close>

definition mean0 :: "real ndarray \<Rightarrow> real list" where
  "mean0 M = map (\<lambda>j. sum_list (col M j) / real (shape0 M)) [0..<ncols M]"

text \<open>
  The Euclidean norm of a one-dimensional array, and \<open>np.linalg.norm(M, axis=0)\<close>, the
  Euclidean norm of every column.
\<close>

definition norm2 :: "real list \<Rightarrow> real" where
  "norm2 v = sqrt (sum_list (map (\<lambda>x. x * x) v))"

definition norm0 :: "real ndarray \<Rightarrow> real list" where
  "norm0 M = map (\<lambda>j. norm2 (col M j)) [0..<ncols M]"

text \<open>\<open>M.diagonal()\<close> and \<open>np.diag(v)\<close>\<close>

definition diagonal :: "'a ndarray \<Rightarrow> 'a list" where
  "diagonal M = map (\<lambda>i. rows M ! i ! i) [0..<min (shape0 M) (ncols M)]"

definition np_diag :: "'a::zero list \<Rightarrow> 'a ndarray" where
  "np_diag v = \<lparr>ncols = length v,
                rows = map (\<lambda>i. map (\<lambda>j. if i = j then v ! i else 0) [0..<length v])
                           [0..<length v]\<rparr>"

text \<open>
  The indices a slice \<open>[:stop:-1]\<close> selects from an axis of length \<open>n\<close>: the start is the
  last index, a negative \<open>stop\<close> counts from the end and is clipped to \<open>-1\<close>, a \<open>stop\<close>
  beyond the end is clipped to the last index, and the indices run downwards from the
  start as long as they are greater than \<open>stop\<close>.
\<close>

definition rev_slice :: "nat \<Rightarrow> int \<Rightarrow> nat list" where
  "rev_slice n stop =
     (let s1 = (if stop < 0 then stop + int n else stop);
          s2 = (if s1 < 0 then - 1 else if s1 \<ge> int n then int n - 1 else s1)
      in map (\<lambda>k. n - 1 - k) [0..<nat (int n - 1 - s2)])"

text \<open>\<open>M[:, idx]\<close> for a list of column indices\<close>

definition take_cols :: "'a ndarray \<Rightarrow> nat list \<Rightarrow> 'a ndarray" where
  "take_cols M idx = \<lparr>ncols = length idx, rows = map (\<lambda>r. map (\<lambda>j. r ! j) idx) (rows M)\<rparr>"

subsection \<open>The fitted model\<close>

record model =
  max_rank :: nat
  data_samples :: nat
  X_variables :: nat
  Y_variables :: nat
  components :: nat
  X_offset :: "real list"
  Y_offset :: "real list"
  W :: "real ndarray"
  T :: "real ndarray"
  Q :: "flt ndarray"
  U :: "flt ndarray"
  C :: "flt ndarray"
  P :: "flt ndarray"
  B :: "flt ndarray"

subsection \<open>\<open>PLS_SB.__init__\<close>\<close>

text \<open>
  \<open>linalg\<close> comes from the package's \<open>__init__\<close> and is numpy's or scipy's; its two routines
  are parameters of the model. \<open>eigh\<close> returns the eigenvalues and the matrix whose columns
  are the eigenvectors, \<open>inv\<close> the inverse; either may raise.
\<close>

type_synonym eigh_fn = "real ndarray \<Rightarrow> error + (real list \<times> real ndarray)"
type_synonym inv_fn = "flt ndarray \<Rightarrow> error + flt ndarray"

text \<open>The centred data and the matrix handed to \<open>eigh\<close>\<close>

definition centred :: "real ndarray \<Rightarrow> real ndarray" where
  "centred M = sub_rows M (mean0 M)"

definition XtY :: "real ndarray \<Rightarrow> real ndarray \<Rightarrow> real ndarray" where
  "XtY X Y = matmul (transpose_nd (centred X)) (centred Y)"

definition eigh_arg :: "real ndarray \<Rightarrow> real ndarray \<Rightarrow> real ndarray" where
  "eigh_arg X Y = matmul (XtY X Y) (transpose_nd (XtY X Y))"

text \<open>
  \<open>W[:, :-g-1:-1].real\<close>: the columns of \<open>eigh\<close>'s matrix from the last one backwards. The
  matrix is real, so \<open>.real\<close> changes nothing.
\<close>

definition select_W :: "real ndarray \<Rightarrow> int \<Rightarrow> real ndarray" where
  "select_W V g = take_cols V (rev_slice (shape1 V) (- g - 1))"

text \<open>
  \<open>self.Q = Yc.T @ self.T\<close> followed by \<open>self.Q /= np.linalg.norm(self.Q, axis=0)\<close>
\<close>

definition Q_raw :: "real ndarray \<Rightarrow> real ndarray \<Rightarrow> real ndarray" where
  "Q_raw Yc T' = matmul (transpose_nd Yc) T'"

definition Q_of :: "real ndarray \<Rightarrow> real ndarray \<Rightarrow> flt ndarray" where
  "Q_of Yc T' = div_rows (fin_nd (Q_raw Yc T')) (norm0 (Q_raw Yc T'))"

definition fit :: "eigh_fn \<Rightarrow> inv_fn \<Rightarrow> real ndarray \<Rightarrow> real ndarray \<Rightarrow> int \<Rightarrow> error + model" where
  "fit eigh inverse_fn X Y g =
     (if shape0 X \<noteq> shape0 Y
      then Inl (ParameterError ''X and Y data must have the same number of rows (data samples)'')
      else
        let max_rank' = min (shape0 X) (shape1 X) in
        if g < 1 \<or> g > int max_rank'
        then Inl (ParameterError ''Number of required components specified is impossible.'')
        else
          let X_offset' = mean0 X;
              Xc = sub_rows X X_offset';
              Y_offset' = mean0 Y;
              Yc = sub_rows Y Y_offset';
              XtY' = matmul (transpose_nd Xc) Yc
          in case eigh (matmul XtY' (transpose_nd XtY')) of
               Inl e \<Rightarrow> Inl e
             | Inr (ev, V) \<Rightarrow>
                 let W' = select_W V g;
                     T' = matmul Xc W';
                     Q' = Q_of Yc T';
                     U' = matmul (fin_nd Yc) Q';
                     t_dot_t = diagonal (matmul (transpose_nd T') T');
                     C' = np_diag (vdiv (diagonal (matmul (fin_nd (transpose_nd T')) U')) t_dot_t);
                     P' = div_rows (fin_nd (matmul (transpose_nd Xc) T')) t_dot_t
                 in (case inverse_fn (matmul (transpose_nd P') (fin_nd W')) of
                      Inl e \<Rightarrow> Inl e
                    | Inr PtW_inv \<Rightarrow>
                        Inr \<lparr>max_rank = max_rank',
                             data_samples = shape0 X,
                             X_variables = shape1 X,
                             Y_variables = shape1 Y,
                             components = nat g,
                             X_offset = X_offset',
                             Y_offset = Y_offset',
                             W = W', T = T', Q = Q', U = U', C = C', P = P',
                             B = matmul (matmul (matmul (fin_nd W') PtW_inv) C')
                                        (transpose_nd Q')\<rparr>))"

subsection \<open>\<open>PLS_SB.prediction\<close>\<close>

text \<open>
  The argument \<open>Z\<close> of both prediction methods is a one-dimensional or a two-dimensional
  array, and so is the result.
\<close>

datatype 'a array = Arr1 "'a list" | Arr2 "'a ndarray"

text \<open>
  \<open>np.empty\<close> returns uninitialised memory. Its contents are a parameter \<open>mem\<close> of the
  model, so that nothing proved can depend on them.
\<close>

definition np_empty :: "(nat \<Rightarrow> flt) \<Rightarrow> nat \<Rightarrow> flt list" where
  "np_empty mem n = map mem [0..<n]"

definition np_empty2 :: "(nat \<Rightarrow> flt) \<Rightarrow> nat \<Rightarrow> nat \<Rightarrow> flt ndarray" where
  "np_empty2 mem k m = \<lparr>ncols = m, rows = map (\<lambda>i. map (\<lambda>j. mem (i * m + j)) [0..<m]) [0..<k]\<rparr>"

text \<open>\<open>R[i, :] = v\<close> for a row index in range and \<open>v\<close> as long as a row of \<open>R\<close>\<close>

definition set_row :: "'a ndarray \<Rightarrow> nat \<Rightarrow> 'a list \<Rightarrow> 'a ndarray" where
  "set_row R i v = R\<lparr>rows := (rows R)[i := v]\<rparr>"

definition shape_error :: error where
  "shape_error = ParameterError
     ''Data provided does not have the  same number of variables as the original X data''"

text \<open>\<open>self.Y_offset + (z - self.X_offset).T @ self.B\<close>; \<open>.T\<close> of a one-dimensional array is the array.\<close>

definition predict_row :: "model \<Rightarrow> real list \<Rightarrow> flt list" where
  "predict_row M z = vadd (fin_vec (Y_offset M)) (vecmat (fin_vec (vsub z (X_offset M))) (B M))"

text \<open>The loop \<open>for i in range(0, Z.shape[0])\<close> of \<open>prediction\<close>, over the remaining indices\<close>

fun prediction_loop :: "model \<Rightarrow> real ndarray \<Rightarrow> nat list \<Rightarrow> flt ndarray \<Rightarrow> flt ndarray" where
  "prediction_loop M Z [] result = result"
| "prediction_loop M Z (i # is) result =
     prediction_loop M Z is (set_row result i (predict_row M (row Z i)))"

definition prediction :: "(nat \<Rightarrow> flt) \<Rightarrow> model \<Rightarrow> real array \<Rightarrow> error + flt array" where
  "prediction mem M Z =
     (case Z of
        Arr1 z \<Rightarrow>
          if length z \<noteq> X_variables M then Inl shape_error
          else Inr (Arr1 (predict_row M z))
      | Arr2 Z2 \<Rightarrow>
          if shape1 Z2 \<noteq> X_variables M then Inl shape_error
          else Inr (Arr2 (prediction_loop M Z2 [0..<shape0 Z2]
                            (np_empty2 mem (shape0 Z2) (Y_variables M)))))"

subsection \<open>\<open>PLS_SB.prediction_iterative\<close>\<close>

text \<open>
  The loop \<open>for j in range(0, self.components)\<close>: it stores the score \<open>t[j]\<close> and deflates
  \<open>x_j\<close>. The state is the pair of \<open>x_j\<close> and \<open>t\<close>.
\<close>

fun deflate :: "model \<Rightarrow> nat list \<Rightarrow> flt list \<times> flt list \<Rightarrow> flt list \<times> flt list" where
  "deflate M [] (x_j, t) = (x_j, t)"
| "deflate M (j # js) (x_j, t) =
     (let t' = t[j := dot x_j (fin_vec (col (W M) j))]
      in deflate M js (vsub x_j (smul (t' ! j) (col (P M) j)), t'))"

text \<open>\<open>self.Y_offset + t @ self.C @ self.Q.T\<close>\<close>

definition combine :: "model \<Rightarrow> flt list \<Rightarrow> flt list" where
  "combine M t = vadd (fin_vec (Y_offset M)) (vecmat (vecmat t (C M)) (transpose_nd (Q M)))"

text \<open>
  The loop \<open>for k in range(0, Z.shape[0])\<close>. The array \<open>t\<close> is allocated once before the
  loop and reused by every row, so it is part of the loop's state.
\<close>

fun iterative_loop ::
  "model \<Rightarrow> real ndarray \<Rightarrow> nat list \<Rightarrow> flt ndarray \<times> flt list \<Rightarrow> flt ndarray \<times> flt list" where
  "iterative_loop M Z [] (result, t) = (result, t)"
| "iterative_loop M Z (k # ks) (result, t) =
     (let t' = snd (deflate M [0..<components M] (fin_vec (vsub (row Z k) (X_offset M)), t))
      in iterative_loop M Z ks (set_row result k (combine M t'), t'))"

definition prediction_iterative ::
  "(nat \<Rightarrow> flt) \<Rightarrow> (nat \<Rightarrow> flt) \<Rightarrow> model \<Rightarrow> real array \<Rightarrow> error + flt array" where
  "prediction_iterative mem_r mem_t M Z =
     (case Z of
        Arr1 z \<Rightarrow>
          if length z \<noteq> X_variables M then Inl shape_error
          else Inr (Arr1 (combine M (snd (deflate M [0..<components M]
                                            (fin_vec (vsub z (X_offset M)),
                                             np_empty mem_t (components M))))))
      | Arr2 Z2 \<Rightarrow>
          if shape1 Z2 \<noteq> X_variables M then Inl shape_error
          else Inr (Arr2 (fst (iterative_loop M Z2 [0..<shape0 Z2]
                                 (np_empty2 mem_r (shape0 Z2) (Y_variables M),
                                  np_empty mem_t (components M))))))"

subsection \<open>The fields of the fitted model, one by one\<close>

text \<open>
  The constructor is straight-line code after its checks. To state what a field holds, each
  assignment is named here as a function of the calibration data, the matrix of
  eigenvectors \<open>V\<close> that \<open>eigh\<close> returned and, for \<open>B\<close>, the matrix \<open>R\<close> that \<open>inv\<close> returned;
  \<open>fit_unfold\<close> below shows that \<open>fit\<close> computes exactly these.
\<close>

definition T_fit :: "real ndarray \<Rightarrow> real ndarray \<Rightarrow> int \<Rightarrow> real ndarray" where
  "T_fit X V g = matmul (centred X) (select_W V g)"

definition Q_fit :: "real ndarray \<Rightarrow> real ndarray \<Rightarrow> real ndarray \<Rightarrow> int \<Rightarrow> flt ndarray" where
  "Q_fit X Y V g = Q_of (centred Y) (T_fit X V g)"

definition U_fit :: "real ndarray \<Rightarrow> real ndarray \<Rightarrow> real ndarray \<Rightarrow> int \<Rightarrow> flt ndarray" where
  "U_fit X Y V g = matmul (fin_nd (centred Y)) (Q_fit X Y V g)"

definition t_dot_t_fit :: "real ndarray \<Rightarrow> real ndarray \<Rightarrow> int \<Rightarrow> real list" where
  "t_dot_t_fit X V g = diagonal (matmul (transpose_nd (T_fit X V g)) (T_fit X V g))"

definition C_fit :: "real ndarray \<Rightarrow> real ndarray \<Rightarrow> real ndarray \<Rightarrow> int \<Rightarrow> flt ndarray" where
  "C_fit X Y V g =
     np_diag (vdiv (diagonal (matmul (fin_nd (transpose_nd (T_fit X V g))) (U_fit X Y V g)))
                   (t_dot_t_fit X V g))"

definition P_fit :: "real ndarray \<Rightarrow> real ndarray \<Rightarrow> int \<Rightarrow> flt ndarray" where
  "P_fit X V g =
     div_rows (fin_nd (matmul (transpose_nd (centred X)) (T_fit X V g))) (t_dot_t_fit X V g)"

text \<open>The matrix \<open>self.P.T @ self.W\<close> handed to \<open>inv\<close>\<close>

definition inv_arg :: "real ndarray \<Rightarrow> real ndarray \<Rightarrow> int \<Rightarrow> flt ndarray" where
  "inv_arg X V g = matmul (transpose_nd (P_fit X V g)) (fin_nd (select_W V g))"

definition B_fit ::
  "real ndarray \<Rightarrow> real ndarray \<Rightarrow> real ndarray \<Rightarrow> int \<Rightarrow> flt ndarray \<Rightarrow> flt ndarray" where
  "B_fit X Y V g R =
     matmul (matmul (matmul (fin_nd (select_W V g)) R) (C_fit X Y V g))
            (transpose_nd (Q_fit X Y V g))"

definition fitted ::
  "real ndarray \<Rightarrow> real ndarray \<Rightarrow> int \<Rightarrow> real ndarray \<Rightarrow> flt ndarray \<Rightarrow> model" where
  "fitted X Y g V R =
     \<lparr>max_rank = min (shape0 X) (shape1 X),
      data_samples = shape0 X,
      X_variables = shape1 X,
      Y_variables = shape1 Y,
      components = nat g,
      X_offset = mean0 X,
      Y_offset = mean0 Y,
      W = select_W V g,
      T = T_fit X V g,
      Q = Q_fit X Y V g,
      U = U_fit X Y V g,
      C = C_fit X Y V g,
      P = P_fit X V g,
      B = B_fit X Y V g R\<rparr>"

definition rows_error :: error where
  "rows_error = ParameterError ''X and Y data must have the same number of rows (data samples)''"

definition components_error :: error where
  "components_error = ParameterError ''Number of required components specified is impossible.''"

subsection \<open>A calibration set worked by hand\<close>

text \<open>
  Three samples of two \<open>X\<close> and two \<open>Y\<close> variables. The centred cross-product
  \<open>Xc.T @ Yc\<close> is the diagonal matrix of 3 and 6, so the matrix handed to \<open>eigh\<close> is the
  diagonal matrix of 9 and 36: its eigenvalues in ascending order are 9 and 36 and the unit
  vectors are its eigenvectors. \<open>eigh_ex\<close> and \<open>inv_ex\<close> stand for the library routines on
  this example: \<open>eigh_ex\<close> knows this matrix and the zero matrix, \<open>inv_ex\<close> inverts a finite two by two
  matrix by its adjugate.
\<close>

definition X_ex :: "real ndarray" where
  "X_ex = \<lparr>ncols = 2, rows = [[2, 1], [1, 2], [0, 0]]\<rparr>"

definition Y_ex :: "real ndarray" where
  "Y_ex = \<lparr>ncols = 2, rows = [[3, 0], [0, 6], [0, 0]]\<rparr>"

definition V_ex :: "real ndarray" where
  "V_ex = \<lparr>ncols = 2, rows = [[1, 0], [0, 1]]\<rparr>"

definition eigh_ex :: eigh_fn where
  "eigh_ex A = (if A = \<lparr>ncols = 2, rows = [[9, 0], [0, 36]]\<rparr>
                then Inr ([9, 36], V_ex)
                else if A = \<lparr>ncols = 2, rows = [[0, 0], [0, 0]]\<rparr>
                then Inr ([0, 0], V_ex)
                else Inl (LibraryError ''not tabulated''))"

definition inv_ex :: inv_fn where
  "inv_ex A =
     (case rows A of
        [[Fin a, Fin b], [Fin c, Fin d]] \<Rightarrow>
          if a * d - b * c = 0 then Inl (LibraryError ''singular matrix'')
          else Inr \<lparr>ncols = 2,
                    rows = [[Fin (d / (a * d - b * c)), Fin (- b / (a * d - b * c))],
                            [Fin (- c / (a * d - b * c)), Fin (a / (a * d - b * c))]]\<rparr>
      | _ \<Rightarrow> Inl (LibraryError ''not tabulated''))"

definition R_ex :: "flt ndarray" where
  "R_ex = \<lparr>ncols = 2, rows = [[Fin (4 / 3), Fin (- 2 / 3)], [Fin (- 2 / 3), Fin (4 / 3)]]\<rparr>"

definition M_ex :: model where
  "M_ex = fitted X_ex Y_ex 2 V_ex R_ex"

text \<open>A library routine that raises whenever it is called\<close>

definition raising :: "'a \<Rightarrow> error + 'b" where
  "raising A = Inl (LibraryError ''called'')"

text \<open>Further inputs: a \<open>Y\<close> of one row, calibration data of no rows, and prediction inputs\<close>

definition Y_one :: "real ndarray" where
  "Y_one = \<lparr>ncols = 2, rows = [[3, 0]]\<rparr>"

definition X_none :: "real ndarray" where
  "X_none = \<lparr>ncols = 2, rows = []\<rparr>"

definition Y_none :: "real ndarray" where
  "Y_none = \<lparr>ncols = 2, rows = []\<rparr>"

definition Z_wide :: "real ndarray" where
  "Z_wide = \<lparr>ncols = 3, rows = [[1, 2, 3]]\<rparr>"

definition Z_none :: "real ndarray" where
  "Z_none = \<lparr>ncols = 2, rows = []\<rparr>"

definition mem_ex :: "nat \<Rightarrow> flt" where
  "mem_ex i = NonFinite"

definition Z_ex :: "real ndarray" where
  "Z_ex = \<lparr>ncols = 2, rows = [[2, 1], [0, 0]]\<rparr>"

text \<open>A \<open>Y\<close> whose columns are constant\<close>

definition Y_flat :: "real ndarray" where
  "Y_flat = \<lparr>ncols = 2, rows = [[1, 1], [1, 1], [1, 1]]\<rparr>"

subsection \<open>What the eigensolver is relied on for\<close>

text \<open>
  \<open>A @ v\<close> for a one-dimensional \<open>v\<close>, and the part of the documented behaviour of
  \<open>linalg.eigh\<close> that the claims about \<open>W\<close> rest on: for a matrix \<open>A\<close> of \<open>n\<close> columns it
  returns \<open>n\<close> eigenvalues in ascending order and an \<open>n\<close> by \<open>n\<close> matrix whose column \<open>j\<close>
  is a unit eigenvector for eigenvalue \<open>j\<close>.
\<close>

definition matvec :: "'a::{comm_monoid_add, times} ndarray \<Rightarrow> 'a list \<Rightarrow> 'a list" where
  "matvec A v = map (\<lambda>r. dot r v) (rows A)"

definition eigh_returns :: "real ndarray \<Rightarrow> real list \<Rightarrow> real ndarray \<Rightarrow> bool" where
  "eigh_returns A ev V \<longleftrightarrow>
     length ev = ncols A \<and> ncols V = ncols A \<and> shape0 V = ncols A \<and> wf V \<and> sorted ev
     \<and> list_all (\<lambda>j. matvec A (col V j) = smul (ev ! j) (col V j)
                      \<and> dot (col V j) (col V j) = 1) [0..<ncols A]"

definition M_flat :: model where
  "M_flat = fitted X_ex Y_flat 2 V_ex R_ex"

subsection \<open>\<open>PLS_SB.__init__\<close> on a store\<close>

text \<open>
  The functions above compute with values. Whether the constructor writes into the arrays
  it is given is a question about buffers, so the constructor is modelled a second time,
  statement by statement, on a store. The arguments \<open>X\<close> and \<open>Y\<close> are now addresses. An
  arithmetic operation, a matrix product, \<open>mean\<close>, \<open>norm\<close>, \<open>np.diag\<close> and the two
  library routines return a new array; \<open>.T\<close>, \<open>.diagonal()\<close>, \<open>.real\<close> and a slice are
  views that read the buffer of their base; \<open>/=\<close> writes into the buffer of its left
  operand. A name is bound to an address, and every use of a name reads the store.
\<close>

text \<open>
  A buffer is the memory of one array. The constructor works on one- and two-dimensional
  arrays, finite or not.
\<close>

datatype buffer = Real1 "real list" | Real2 "real ndarray" | Flt1 "flt list" | Flt2 "flt ndarray"

text \<open>
  The store lists the buffers in the order of their allocation; the address of a buffer is
  its position.
\<close>

type_synonym store = "buffer list"

text \<open>Reading a buffer as an array of the kind a statement expects\<close>

fun r1 :: "buffer \<Rightarrow> real list" where
  "r1 (Real1 v) = v"
| "r1 _ = []"

fun r2 :: "buffer \<Rightarrow> real ndarray" where
  "r2 (Real2 M) = M"
| "r2 _ = \<lparr>ncols = 0, rows = []\<rparr>"

fun f1 :: "buffer \<Rightarrow> flt list" where
  "f1 (Flt1 v) = v"
| "f1 (Real1 v) = fin_vec v"
| "f1 _ = []"

fun f2 :: "buffer \<Rightarrow> flt ndarray" where
  "f2 (Flt2 M) = M"
| "f2 (Real2 M) = fin_nd M"
| "f2 _ = \<lparr>ncols = 0, rows = []\<rparr>"

text \<open>
  \<open>new\<close> allocates a buffer for a value computed from the store and returns its address;
  \<open>reading\<close> computes a value from the store; \<open>divide_in_place\<close> is the statement
  \<open>A /= d\<close>, which writes the quotients into the buffer of \<open>A\<close>.
\<close>

definition new :: "(store \<Rightarrow> buffer) \<Rightarrow> (store, nat) state" where
  "new v = State (\<lambda>s. (length s, s @ [v s]))"

definition reading :: "(store \<Rightarrow> 'a) \<Rightarrow> (store, 'a) state" where
  "reading f = State (\<lambda>s. (f s, s))"

definition divide_in_place :: "nat \<Rightarrow> nat \<Rightarrow> (store, unit) state" where
  "divide_in_place a d = State (\<lambda>s. ((), s[a := Flt2 (div_rows (f2 (s ! a)) (r1 (s ! d)))]))"

definition fit_store :: "eigh_fn \<Rightarrow> inv_fn \<Rightarrow> nat \<Rightarrow> nat \<Rightarrow> int \<Rightarrow> (store, error + model) state" where
  "fit_store eigh inverse_fn X Y g = do {
     ok_rows \<leftarrow> reading (\<lambda>s. shape0 (r2 (s ! X)) = shape0 (r2 (s ! Y)));
     if \<not> ok_rows then State_Monad.return (Inl rows_error) else do {
     max_rank' \<leftarrow> reading (\<lambda>s. min (shape0 (r2 (s ! X))) (shape1 (r2 (s ! X))));
     if g < 1 \<or> g > int max_rank' then State_Monad.return (Inl components_error) else do {
     X_offset' \<leftarrow> new (\<lambda>s. Real1 (mean0 (r2 (s ! X))));
     Xc \<leftarrow> new (\<lambda>s. Real2 (sub_rows (r2 (s ! X)) (r1 (s ! X_offset'))));
     Y_offset' \<leftarrow> new (\<lambda>s. Real1 (mean0 (r2 (s ! Y))));
     Yc \<leftarrow> new (\<lambda>s. Real2 (sub_rows (r2 (s ! Y)) (r1 (s ! Y_offset'))));
     XtY' \<leftarrow> new (\<lambda>s. Real2 (matmul (transpose_nd (r2 (s ! Xc))) (r2 (s ! Yc))));
     arg \<leftarrow> new (\<lambda>s. Real2 (matmul (r2 (s ! XtY')) (transpose_nd (r2 (s ! XtY')))));
     eig \<leftarrow> reading (\<lambda>s. eigh (r2 (s ! arg)));
     case eig of
       Inl e \<Rightarrow> State_Monad.return (Inl e)
     | Inr (ev, V) \<Rightarrow> do {
     ev' \<leftarrow> new (\<lambda>s. Real1 ev);
     V' \<leftarrow> new (\<lambda>s. Real2 V);
     T' \<leftarrow> new (\<lambda>s. Real2 (matmul (r2 (s ! Xc)) (select_W (r2 (s ! V')) g)));
     Q' \<leftarrow> new (\<lambda>s. Real2 (matmul (transpose_nd (r2 (s ! Yc))) (r2 (s ! T'))));
     norms \<leftarrow> new (\<lambda>s. Real1 (norm0 (r2 (s ! Q'))));
     divide_in_place Q' norms;
     U' \<leftarrow> new (\<lambda>s. Flt2 (matmul (fin_nd (r2 (s ! Yc))) (f2 (s ! Q'))));
     TtT \<leftarrow> new (\<lambda>s. Real2 (matmul (transpose_nd (r2 (s ! T'))) (r2 (s ! T'))));
     TtU \<leftarrow> new (\<lambda>s. Flt2 (matmul (fin_nd (transpose_nd (r2 (s ! T')))) (f2 (s ! U'))));
     c \<leftarrow> new (\<lambda>s. Flt1 (vdiv (diagonal (f2 (s ! TtU))) (diagonal (r2 (s ! TtT)))));
     C' \<leftarrow> new (\<lambda>s. Flt2 (np_diag (f1 (s ! c))));
     XtT \<leftarrow> new (\<lambda>s. Real2 (matmul (transpose_nd (r2 (s ! Xc))) (r2 (s ! T'))));
     P' \<leftarrow> new (\<lambda>s. Flt2 (div_rows (fin_nd (r2 (s ! XtT))) (diagonal (r2 (s ! TtT)))));
     PtW \<leftarrow> new (\<lambda>s. Flt2 (matmul (transpose_nd (f2 (s ! P'))) (fin_nd (select_W (r2 (s ! V')) g))));
     inverse \<leftarrow> reading (\<lambda>s. inverse_fn (f2 (s ! PtW)));
     case inverse of
       Inl e \<Rightarrow> State_Monad.return (Inl e)
     | Inr R \<Rightarrow> do {
     R' \<leftarrow> new (\<lambda>s. Flt2 R);
     WR \<leftarrow> new (\<lambda>s. Flt2 (matmul (fin_nd (select_W (r2 (s ! V')) g)) (f2 (s ! R'))));
     WRC \<leftarrow> new (\<lambda>s. Flt2 (matmul (f2 (s ! WR)) (f2 (s ! C'))));
     B' \<leftarrow> new (\<lambda>s. Flt2 (matmul (f2 (s ! WRC)) (transpose_nd (f2 (s ! Q')))));
     reading (\<lambda>s. Inr \<lparr>max_rank = max_rank',
                        data_samples = shape0 (r2 (s ! X)),
                        X_variables = shape1 (r2 (s ! X)),
                        Y_variables = shape1 (r2 (s ! Y)),
                        components = nat g,
                        X_offset = r1 (s ! X_offset'),
                        Y_offset = r1 (s ! Y_offset'),
                        W = select_W (r2 (s ! V')) g,
                        T = r2 (s ! T'),
                        Q = f2 (s ! Q'),
                        U = f2 (s ! U'),
                        C = f2 (s ! C'),
                        P = f2 (s ! P'),
                        B = f2 (s ! B')\<rparr>)
     }}}}}"


text \<open>
  A computation keeps the first \<open>n\<close> buffers when, started on a store of at least \<open>n\<close>
  buffers, it ends on a store that has the same first \<open>n\<close> buffers.
\<close>

definition keeps :: "nat \<Rightarrow> (store, 'a) state \<Rightarrow> bool" where
  "keeps n m \<longleftrightarrow>
     (\<forall>s. n \<le> length s \<longrightarrow>
        (case run_state m s of (a, s') \<Rightarrow> n \<le> length s' \<and> take n s' = take n s))"

text \<open>The address of the \<open>k\<close>-th buffer allocated on top of the store \<open>s0\<close>\<close>

definition addr :: "store \<Rightarrow> nat \<Rightarrow> nat" where
  "addr s0 k = length s0 + k"

definition s_ex :: store where
  "s_ex = [Real2 X_ex, Real2 Y_ex]"

text \<open>A rectangular array of \<open>n\<close> rows and \<open>k\<close> columns\<close>

definition has_shape :: "'a ndarray \<Rightarrow> nat \<Rightarrow> nat \<Rightarrow> bool" where
  "has_shape M n k \<longleftrightarrow> wf M \<and> shape0 M = n \<and> ncols M = k"

text \<open>
  The eigenvectors of the worked example are determined up to their signs \<open>a\<close> and \<open>b\<close>.
  These are the eigenvector matrix, the stand-in for \<open>eigh\<close>, the inverse of \<open>P.T @ W\<close>
  and the fitted model for each choice of signs.
\<close>

definition V_sgn :: "real \<Rightarrow> real \<Rightarrow> real ndarray" where
  "V_sgn a b = \<lparr>ncols = 2, rows = [[a, 0], [0, b]]\<rparr>"

definition R_sgn :: "real \<Rightarrow> real \<Rightarrow> flt ndarray" where
  "R_sgn a b = \<lparr>ncols = 2, rows = [[Fin (4 / 3), Fin (- 2 * a * b / 3)],
                                      [Fin (- 2 * a * b / 3), Fin (4 / 3)]]\<rparr>"

definition eigh_sgn :: "real \<Rightarrow> real \<Rightarrow> eigh_fn" where
  "eigh_sgn a b A = (if A = \<lparr>ncols = 2, rows = [[9, 0], [0, 36]]\<rparr>
                     then Inr ([9, 36], V_sgn a b)
                     else Inl (LibraryError ''not tabulated''))"

definition M_sgn :: "real \<Rightarrow> real \<Rightarrow> model" where
  "M_sgn a b = fitted X_ex Y_ex 2 (V_sgn a b) (R_sgn a b)"

text \<open>An \<open>X\<close> whose two columns are equal\<close>

definition X_col :: "real ndarray" where
  "X_col = \<lparr>ncols = 2, rows = [[1, 1], [2, 2], [3, 3]]\<rparr>"

section \<open>Properties\<close>

subsection \<open>The constructor, stage by stage\<close>

lemma fit_unfold:
  "fit eigh inverse_fn X Y g =
     (if shape0 X \<noteq> shape0 Y then Inl rows_error
      else if g < 1 \<or> g > int (min (shape0 X) (shape1 X)) then Inl components_error
      else case eigh (eigh_arg X Y) of
             Inl e \<Rightarrow> Inl e
           | Inr (ev, V) \<Rightarrow>
               (case inverse_fn (inv_arg X V g) of
                  Inl e \<Rightarrow> Inl e
                | Inr R \<Rightarrow> Inr (fitted X Y g V R)))"
  by (simp add: fit_def Let_def rows_error_def components_error_def eigh_arg_def XtY_def
      centred_def inv_arg_def fitted_def T_fit_def Q_fit_def U_fit_def t_dot_t_fit_def C_fit_def
      P_fit_def B_fit_def split: sum.splits prod.splits)

lemma fit_fields:
  assumes "fit eigh inverse_fn X Y g = Inr M"
  shows "shape0 X = shape0 Y" and "1 \<le> g" and "g \<le> int (min (shape0 X) (shape1 X))"
    and "\<exists>ev V R. eigh (eigh_arg X Y) = Inr (ev, V) \<and> inverse_fn (inv_arg X V g) = Inr R
           \<and> M = fitted X Y g V R"
  using assms by (auto simp: fit_unfold split: if_splits sum.splits prod.splits)

lemma fit_X_variables: "fit eigh inverse_fn X Y g = Inr M \<Longrightarrow> X_variables M = shape1 X"
  by (auto dest!: fit_fields(4) simp: fitted_def)

lemma fit_Y_variables: "fit eigh inverse_fn X Y g = Inr M \<Longrightarrow> Y_variables M = shape1 Y"
  by (auto dest!: fit_fields(4) simp: fitted_def)

lemma fit_components: "fit eigh inverse_fn X Y g = Inr M \<Longrightarrow> components M = nat g"
  by (auto dest!: fit_fields(4) simp: fitted_def)

subsection \<open>The worked calibration set\<close>

lemmas nd_defs = shape0_def shape1_def row_def col_def transpose_nd_def dot_def vecmat_def
  matmul_def vadd_def vsub_def smul_def sub_rows_def vdiv_def div_rows_def fin_vec_def
  fin_nd_def mean0_def norm0_def norm2_def diagonal_def np_diag_def rev_slice_def take_cols_def

lemma sqrt_36: "sqrt 36 = 6"
  by (rule real_sqrt_unique) simp_all

lemma sqrt_9: "sqrt 9 = 3"
  by (rule real_sqrt_unique) simp_all

lemma centred_X_ex: "centred X_ex = \<lparr>ncols = 2, rows = [[1, 0], [0, 1], [- 1, - 1]]\<rparr>"
  by (simp add: centred_def nd_defs X_ex_def eval_nat_numeral)

lemma centred_Y_ex: "centred Y_ex = \<lparr>ncols = 2, rows = [[2, - 2], [- 1, 4], [- 1, - 2]]\<rparr>"
  by (simp add: centred_def nd_defs Y_ex_def eval_nat_numeral)

lemma eigh_arg_ex: "eigh_arg X_ex Y_ex = \<lparr>ncols = 2, rows = [[9, 0], [0, 36]]\<rparr>"
  by (simp add: eigh_arg_def XtY_def centred_X_ex centred_Y_ex nd_defs eval_nat_numeral)

lemma eigh_ex_ex: "eigh_ex (eigh_arg X_ex Y_ex) = Inr ([9, 36], V_ex)"
  by (simp add: eigh_arg_ex eigh_ex_def)

lemma select_W_ex: "select_W V_ex 2 = \<lparr>ncols = 2, rows = [[0, 1], [1, 0]]\<rparr>"
  by (simp add: select_W_def V_ex_def nd_defs eval_nat_numeral)

lemma T_fit_ex: "T_fit X_ex V_ex 2 = \<lparr>ncols = 2, rows = [[0, 1], [1, 0], [- 1, - 1]]\<rparr>"
  by (simp add: T_fit_def centred_X_ex select_W_ex nd_defs eval_nat_numeral)

lemma Q_raw_ex: "Q_raw (centred Y_ex) (T_fit X_ex V_ex 2) = \<lparr>ncols = 2, rows = [[0, 3], [6, 0]]\<rparr>"
  by (simp add: Q_raw_def T_fit_ex centred_Y_ex nd_defs eval_nat_numeral)

lemma Q_fit_ex: "Q_fit X_ex Y_ex V_ex 2 = \<lparr>ncols = 2, rows = [[Fin 0, Fin 1], [Fin 1, Fin 0]]\<rparr>"
  by (simp add: Q_fit_def Q_of_def Q_raw_ex nd_defs eval_nat_numeral sqrt_36 sqrt_9)

lemma U_fit_ex: "U_fit X_ex Y_ex V_ex 2 =
    \<lparr>ncols = 2, rows = [[Fin (- 2), Fin 2], [Fin 4, Fin (- 1)], [Fin (- 2), Fin (- 1)]]\<rparr>"
  by (simp add: U_fit_def Q_fit_ex centred_Y_ex nd_defs eval_nat_numeral zero_flt_def)

lemma t_dot_t_ex: "t_dot_t_fit X_ex V_ex 2 = [2, 2]"
  by (simp add: t_dot_t_fit_def T_fit_ex nd_defs eval_nat_numeral)

lemma C_fit_ex:
  "C_fit X_ex Y_ex V_ex 2 = \<lparr>ncols = 2, rows = [[Fin 3, Fin 0], [Fin 0, Fin (3 / 2)]]\<rparr>"
  by (simp add: C_fit_def T_fit_ex U_fit_ex t_dot_t_ex nd_defs eval_nat_numeral zero_flt_def)

lemma P_fit_ex:
  "P_fit X_ex V_ex 2 = \<lparr>ncols = 2, rows = [[Fin (1 / 2), Fin 1], [Fin 1, Fin (1 / 2)]]\<rparr>"
  by (simp add: P_fit_def T_fit_ex centred_X_ex t_dot_t_ex nd_defs eval_nat_numeral zero_flt_def)

lemma inv_arg_ex:
  "inv_arg X_ex V_ex 2 = \<lparr>ncols = 2, rows = [[Fin 1, Fin (1 / 2)], [Fin (1 / 2), Fin 1]]\<rparr>"
  by (simp add: inv_arg_def P_fit_ex select_W_ex nd_defs eval_nat_numeral zero_flt_def)

lemma inv_ex_ex: "inv_ex (inv_arg X_ex V_ex 2) = Inr R_ex"
  by (simp add: inv_arg_ex inv_ex_def R_ex_def)

lemma B_fit_ex:
  "B_fit X_ex Y_ex V_ex 2 R_ex = \<lparr>ncols = 2, rows = [[Fin 2, Fin (- 2)], [Fin (- 1), Fin 4]]\<rparr>"
  by (simp add: B_fit_def select_W_ex C_fit_ex Q_fit_ex R_ex_def nd_defs eval_nat_numeral
      zero_flt_def)

lemma shape_X_ex: "shape0 X_ex = 3" "shape1 X_ex = 2" "shape0 Y_ex = 3" "shape1 Y_ex = 2"
  by (simp_all add: X_ex_def Y_ex_def shape0_def shape1_def)

lemma shape_Z_ex: "shape1 Z_wide = 3" "shape0 Z_wide = 1" "shape1 Z_none = 2" "shape0 Z_none = 0"
  "shape1 Z_ex = 2" "shape0 Z_ex = 2" "wf Z_ex" "row Z_ex 0 = [2, 1]" "row Z_ex 1 = [0, 0]"
  by (simp_all add: Z_wide_def Z_none_def Z_ex_def shape0_def shape1_def wf_def row_def)

lemma rows_Z_ex: "rows Z_ex = [[2, 1], [0, 0]]"
  by (simp add: Z_ex_def)

lemma fit_ex: "fit eigh_ex inv_ex X_ex Y_ex 2 = Inr M_ex"
  by (simp add: fit_unfold shape_X_ex eigh_ex_ex inv_ex_ex M_ex_def)

lemma M_ex_fields:
  "X_variables M_ex = 2" "Y_variables M_ex = 2" "components M_ex = 2"
  "X_offset M_ex = [1, 1]" "Y_offset M_ex = [1, 2]"
  "W M_ex = \<lparr>ncols = 2, rows = [[0, 1], [1, 0]]\<rparr>"
  "Q M_ex = \<lparr>ncols = 2, rows = [[Fin 0, Fin 1], [Fin 1, Fin 0]]\<rparr>"
  "C M_ex = \<lparr>ncols = 2, rows = [[Fin 3, Fin 0], [Fin 0, Fin (3 / 2)]]\<rparr>"
  "P M_ex = \<lparr>ncols = 2, rows = [[Fin (1 / 2), Fin 1], [Fin 1, Fin (1 / 2)]]\<rparr>"
  "B M_ex = \<lparr>ncols = 2, rows = [[Fin 2, Fin (- 2)], [Fin (- 1), Fin 4]]\<rparr>"
  by (simp_all add: M_ex_def fitted_def shape_X_ex select_W_ex Q_fit_ex C_fit_ex P_fit_ex
      B_fit_ex) (simp_all add: mean0_def col_def shape0_def X_ex_def Y_ex_def eval_nat_numeral)

text \<open>
  With the equal columns of \<open>X_col\<close> and the constant \<open>Y_flat\<close>, the two columns of \<open>T\<close>
  are equal, \<open>P.T @ W\<close> is the singular matrix of ones, and \<open>inv\<close> raises.
\<close>

lemma shape_X_col: "shape0 X_col = 3" "shape1 X_col = 2"
  by (simp_all add: X_col_def shape0_def shape1_def)

lemma shape_Y_flat: "shape0 Y_flat = 3" "shape1 Y_flat = 2"
  by (simp_all add: Y_flat_def shape0_def shape1_def)

lemma centred_X_col: "centred X_col = \<lparr>ncols = 2, rows = [[- 1, - 1], [0, 0], [1, 1]]\<rparr>"
  by (simp add: centred_def nd_defs X_col_def eval_nat_numeral)

lemma centred_Y_flat: "centred Y_flat = \<lparr>ncols = 2, rows = [[0, 0], [0, 0], [0, 0]]\<rparr>"
  by (simp add: centred_def nd_defs Y_flat_def eval_nat_numeral)

lemma eigh_arg_col: "eigh_arg X_col Y_flat = \<lparr>ncols = 2, rows = [[0, 0], [0, 0]]\<rparr>"
  by (simp add: eigh_arg_def XtY_def centred_X_col centred_Y_flat nd_defs eval_nat_numeral)

lemma T_fit_col: "T_fit X_col V_ex 2 = \<lparr>ncols = 2, rows = [[- 1, - 1], [0, 0], [1, 1]]\<rparr>"
  by (simp add: T_fit_def centred_X_col select_W_ex nd_defs eval_nat_numeral)

lemma t_dot_t_col: "t_dot_t_fit X_col V_ex 2 = [2, 2]"
  by (simp add: t_dot_t_fit_def T_fit_col nd_defs eval_nat_numeral)

lemma P_fit_col: "P_fit X_col V_ex 2 = \<lparr>ncols = 2, rows = [[Fin 1, Fin 1], [Fin 1, Fin 1]]\<rparr>"
  by (simp add: P_fit_def T_fit_col centred_X_col t_dot_t_col nd_defs eval_nat_numeral
      zero_flt_def)

lemma inv_arg_col:
  "inv_arg X_col V_ex 2 = \<lparr>ncols = 2, rows = [[Fin 1, Fin 1], [Fin 1, Fin 1]]\<rparr>"
  by (simp add: inv_arg_def P_fit_col select_W_ex nd_defs eval_nat_numeral zero_flt_def)

lemma inv_ex_col: "inv_ex (inv_arg X_col V_ex 2) = Inl (LibraryError ''singular matrix'')"
  by (simp add: inv_arg_col inv_ex_def)

lemma eigh_ex_col: "eigh_ex (eigh_arg X_col Y_flat) = Inr ([0, 0], V_ex)"
  by (simp add: eigh_arg_col eigh_ex_def)

subsection \<open>The checks of the constructor\<close>

text \<open>
  C3, as the claim states it, fails: calibration data without rows have \<open>max_rank = 0\<close>, and
  the constructor rejects \<open>g = max_rank\<close> there.
\<close>

theorem fit_max_rank_counterexample:
  "shape0 X_none = shape0 Y_none \<and>
   fit eigh_ex inv_ex X_none Y_none (int (min (shape0 X_none) (shape1 X_none))) =
     Inl (ParameterError ''Number of required components specified is impossible.'')"
  by (simp add: fit_def shape0_def shape1_def X_none_def Y_none_def)

text \<open>
  C3, amended. With equal row counts, every \<open>g < 1\<close> and every \<open>g > max_rank\<close> raises the
  \<open>ParameterError\<close> of the second check. When \<open>max_rank \<ge> 1\<close>, the call with
  \<open>g = max_rank\<close> passes both checks, and its outcome is the library's: the error of \<open>eigh\<close>
  or of \<open>inv\<close> if one of them raises, the fitted model otherwise.
\<close>

theorem fit_components_bounds:
  assumes "shape0 X = shape0 Y"
  shows "(g < 1 \<or> g > int (min (shape0 X) (shape1 X)) \<longrightarrow>
            fit eigh inverse_fn X Y g =
              Inl (ParameterError ''Number of required components specified is impossible.''))
       \<and> (1 \<le> min (shape0 X) (shape1 X) \<longrightarrow>
            fit eigh inverse_fn X Y (int (min (shape0 X) (shape1 X))) =
              (case eigh (eigh_arg X Y) of
                 Inl e \<Rightarrow> Inl e
               | Inr (ev, V) \<Rightarrow>
                   (case inverse_fn (inv_arg X V (int (min (shape0 X) (shape1 X)))) of
                      Inl e \<Rightarrow> Inl e
                    | Inr R \<Rightarrow> Inr (fitted X Y (int (min (shape0 X) (shape1 X))) V R))))"
  using assms [symmetric] by (auto simp: fit_unfold components_error_def)

theorem fit_components_bounds_witness:
  "shape0 X_ex = shape0 Y_ex \<and> 1 \<le> min (shape0 X_ex) (shape1 X_ex)
   \<and> fit eigh_ex inv_ex X_ex Y_ex 0 =
       Inl (ParameterError ''Number of required components specified is impossible.'')
   \<and> fit eigh_ex inv_ex X_ex Y_ex 3 =
       Inl (ParameterError ''Number of required components specified is impossible.'')
   \<and> fit eigh_ex inv_ex X_ex Y_ex 2 = Inr M_ex
   \<and> shape0 X_col = shape0 Y_flat \<and> 1 \<le> min (shape0 X_col) (shape1 X_col)
   \<and> fit eigh_ex inv_ex X_col Y_flat 2 = Inl (LibraryError ''singular matrix'')"
proof -
  have eq: "shape0 X_ex = shape0 Y_ex" and eq': "shape0 X_col = shape0 Y_flat"
    by (simp_all add: shape_X_ex shape_X_col shape_Y_flat)
  from fit_components_bounds [OF eq, of 0 eigh_ex inv_ex]
       fit_components_bounds [OF eq, of 3 eigh_ex inv_ex]
       fit_components_bounds [OF eq', of 0 eigh_ex inv_ex] eq'
  show ?thesis
    by (simp add: shape_X_ex shape_X_col eigh_ex_ex inv_ex_ex M_ex_def eigh_ex_col inv_ex_col)
qed

subsection \<open>The checks of the two prediction methods\<close>

text \<open>
  C7. For a fitted model, a one-dimensional input whose length is not the number of
  \<open>X\<close> variables, and a two-dimensional input whose number of columns is not, make both
  methods raise the \<open>ParameterError\<close> that names the variables of the original \<open>X\<close> data.
  The outcome does not depend on the coefficients of the model or on the rows of the input.
\<close>

theorem prediction_shape_mismatch:
  assumes "fit eigh inverse_fn X Y g = Inr M"
  shows "(length z \<noteq> shape1 X \<longrightarrow>
            prediction mem M (Arr1 z) =
              Inl (ParameterError
                ''Data provided does not have the  same number of variables as the original X data'')
          \<and> prediction_iterative mem_r mem_t M (Arr1 z) =
              Inl (ParameterError
                ''Data provided does not have the  same number of variables as the original X data''))
       \<and> (shape1 Z \<noteq> shape1 X \<longrightarrow>
            prediction mem M (Arr2 Z) =
              Inl (ParameterError
                ''Data provided does not have the  same number of variables as the original X data'')
          \<and> prediction_iterative mem_r mem_t M (Arr2 Z) =
              Inl (ParameterError
                ''Data provided does not have the  same number of variables as the original X data''))"
  using fit_X_variables [OF assms]
  by (simp add: prediction_def prediction_iterative_def shape_error_def)

theorem prediction_shape_mismatch_witness:
  "fit eigh_ex inv_ex X_ex Y_ex 2 = Inr M_ex
   \<and> length [1, 2, 3 :: real] \<noteq> shape1 X_ex \<and> shape1 Z_wide \<noteq> shape1 X_ex
   \<and> prediction mem_ex M_ex (Arr1 [1, 2, 3]) = Inl shape_error
   \<and> prediction_iterative mem_ex mem_ex M_ex (Arr1 [1, 2, 3]) = Inl shape_error
   \<and> prediction mem_ex M_ex (Arr2 Z_wide) = Inl shape_error
   \<and> prediction_iterative mem_ex mem_ex M_ex (Arr2 Z_wide) = Inl shape_error"
  using prediction_shape_mismatch [OF fit_ex, of "[1, 2, 3]" mem_ex mem_ex mem_ex Z_wide]
  by (simp add: fit_ex shape_X_ex shape_Z_ex shape_error_def)

text \<open>
  C10. For a fitted model, a two-dimensional input of no rows and as many columns as there
  are \<open>X\<close> variables makes both methods return the two-dimensional array of no rows and as
  many columns as there are \<open>Y\<close> variables.
\<close>

theorem prediction_no_rows:
  assumes "fit eigh inverse_fn X Y g = Inr M"
    and "shape1 Z = shape1 X" and "shape0 Z = 0"
  shows "prediction mem M (Arr2 Z) = Inr (Arr2 \<lparr>ncols = shape1 Y, rows = []\<rparr>)
       \<and> prediction_iterative mem_r mem_t M (Arr2 Z) = Inr (Arr2 \<lparr>ncols = shape1 Y, rows = []\<rparr>)"
  using fit_X_variables [OF assms(1)] fit_Y_variables [OF assms(1)] assms(2,3)
  by (simp add: prediction_def prediction_iterative_def np_empty2_def)

theorem prediction_no_rows_witness:
  "fit eigh_ex inv_ex X_ex Y_ex 2 = Inr M_ex \<and> shape1 Z_none = shape1 X_ex \<and> shape0 Z_none = 0
   \<and> prediction mem_ex M_ex (Arr2 Z_none) = Inr (Arr2 \<lparr>ncols = 2, rows = []\<rparr>)
   \<and> prediction_iterative mem_ex mem_ex M_ex (Arr2 Z_none) = Inr (Arr2 \<lparr>ncols = 2, rows = []\<rparr>)"
proof -
  have w: "shape1 Z_none = shape1 X_ex" and h: "shape0 Z_none = 0"
    by (simp_all add: shape_X_ex shape_Z_ex)
  from prediction_no_rows [OF fit_ex w h, of mem_ex mem_ex mem_ex] w h
  show ?thesis by (simp add: fit_ex shape_X_ex)
qed

subsection \<open>The two prediction methods on the worked calibration set\<close>

text \<open>
  The library stand-ins behave as the library does on this input: 9 and 36 are the
  eigenvalues of the matrix handed to \<open>eigh\<close>, in ascending order, the columns of \<open>V_ex\<close>
  are orthonormal eigenvectors for them, and \<open>R_ex\<close> is the inverse of the matrix handed to
  \<open>inv\<close>.
\<close>

lemma R_ex_inverse:
  "matmul (inv_arg X_ex V_ex 2) R_ex = \<lparr>ncols = 2, rows = [[Fin 1, Fin 0], [Fin 0, Fin 1]]\<rparr>"
  "matmul R_ex (inv_arg X_ex V_ex 2) = \<lparr>ncols = 2, rows = [[Fin 1, Fin 0], [Fin 0, Fin 1]]\<rparr>"
  by (simp_all add: inv_arg_ex R_ex_def nd_defs eval_nat_numeral zero_flt_def)

lemma np_empty_ex: "np_empty mem_ex 2 = [NonFinite, NonFinite]"
  by (simp add: np_empty_def mem_ex_def eval_nat_numeral)

lemma predict_row_ex: "predict_row M_ex [2, 1] = [Fin 3, Fin 0]"
  by (simp add: predict_row_def M_ex_fields nd_defs eval_nat_numeral zero_flt_def)

lemma deflate_ex:
  "deflate M_ex [0..<2] ([Fin 1, Fin 0], [a, b]) = ([Fin 0, Fin (- 1 / 2)], [Fin 0, Fin 1])"
  by (simp add: M_ex_fields nd_defs eval_nat_numeral zero_flt_def Let_def)

lemma combine_ex: "combine M_ex [Fin 0, Fin 1] = [Fin (5 / 2), Fin 2]"
  by (simp add: combine_def M_ex_fields nd_defs eval_nat_numeral zero_flt_def)

text \<open>
  C1 fails on the code. The worked calibration set is fitted with two components, and the
  first calibration sample, the row \<open>[2, 1]\<close>, is predicted. The one-step method returns
  \<open>[3, 0]\<close>, which is the first row of \<open>Y\<close>; the iterative method returns \<open>[5/2, 2]\<close>. The
  scores \<open>T\<close> of a PLS-SB fit are not orthogonal in general (here \<open>T.T @ T\<close> has 1 off
  the diagonal), so \<open>P.T @ W\<close> is not triangular and the deflation does not invert it.
\<close>

theorem prediction_iterative_differs:
  "fit eigh_ex inv_ex X_ex Y_ex 2 = Inr M_ex
   \<and> prediction mem_ex M_ex (Arr1 [2, 1]) = Inr (Arr1 [Fin 3, Fin 0])
   \<and> prediction_iterative mem_ex mem_ex M_ex (Arr1 [2, 1]) = Inr (Arr1 [Fin (5 / 2), Fin 2])"
proof -
  have "prediction mem_ex M_ex (Arr1 [2, 1]) = Inr (Arr1 [Fin 3, Fin 0])"
    by (simp add: prediction_def M_ex_fields(1) predict_row_ex)
  moreover have "vsub [2, 1] (X_offset M_ex) = [1, 0 :: real]"
    by (simp add: M_ex_fields vsub_def)
  then have "prediction_iterative mem_ex mem_ex M_ex (Arr1 [2, 1]) = Inr (Arr1 [Fin (5 / 2), Fin 2])"
    by (simp add: prediction_iterative_def M_ex_fields(1,3) fin_vec_def np_empty_ex deflate_ex
        combine_ex)
  ultimately show ?thesis
    by (simp add: fit_ex)
qed

subsection \<open>The loops of the prediction methods\<close>

lemma set_row_simps: "ncols (set_row R i v) = ncols R" "rows (set_row R i v) = (rows R)[i := v]"
  by (simp_all add: set_row_def)

lemma np_empty2_simps: "ncols (np_empty2 mem k m) = m" "length (rows (np_empty2 mem k m)) = k"
  by (simp_all add: np_empty2_def)

lemma prediction_loop_ncols: "ncols (prediction_loop M Z js R) = ncols R"
  by (induction js arbitrary: R) (simp_all add: set_row_simps)

lemma prediction_loop_length: "length (rows (prediction_loop M Z js R)) = length (rows R)"
  by (induction js arbitrary: R) (simp_all add: set_row_simps)

lemma prediction_loop_nth:
  "i < length (rows R) \<Longrightarrow>
   rows (prediction_loop M Z js R) ! i =
     (if i \<in> set js then predict_row M (row Z i) else rows R ! i)"
  by (induction js arbitrary: R) (auto simp: set_row_simps nth_list_update)

text \<open>The loop of \<open>prediction\<close> overwrites every row of the uninitialised result.\<close>

lemma prediction_loop_all:
  "prediction_loop M Z [0..<shape0 Z] (np_empty2 mem (shape0 Z) m) =
     \<lparr>ncols = m, rows = map (predict_row M) (rows Z)\<rparr>"
proof -
  let ?R = "prediction_loop M Z [0..<shape0 Z] (np_empty2 mem (shape0 Z) m)"
  have "rows ?R = map (predict_row M) (rows Z)"
    by (rule nth_equalityI)
      (simp_all add: prediction_loop_length prediction_loop_nth np_empty2_simps shape0_def row_def)
  moreover have "ncols ?R = m"
    by (simp add: prediction_loop_ncols np_empty2_simps)
  ultimately show ?thesis by simp
qed

lemma deflate_length: "length (snd (deflate M js (x, t))) = length t"
  by (induction js arbitrary: x t) (simp_all add: Let_def)

text \<open>
  The inner loop of \<open>prediction_iterative\<close> writes \<open>t[i], \<dots>, t[n - 1]\<close> before it reads
  them: two score arrays that agree below \<open>i\<close> give the same result.
\<close>

lemma deflate_indep:
  "length t = n \<Longrightarrow> length t' = n \<Longrightarrow> i \<le> n \<Longrightarrow> (\<forall>k<i. t ! k = t' ! k) \<Longrightarrow>
   deflate M [i..<n] (x, t) = deflate M [i..<n] (x, t')"
proof (induction "n - i" arbitrary: i x t t')
  case 0
  then have "t = t'" by (auto intro: nth_equalityI)
  with 0 show ?case by simp
next
  case (Suc d)
  then have lt: "i < n" by simp
  let ?v = "dot x (fin_vec (col (W M) i))"
  have "deflate M [Suc i..<n] (vsub x (smul (t[i := ?v] ! i) (col (P M) i)), t[i := ?v]) =
        deflate M [Suc i..<n] (vsub x (smul (t[i := ?v] ! i) (col (P M) i)), t'[i := ?v])"
    using Suc lt by (intro Suc.hyps(1)) (auto simp: nth_list_update less_Suc_eq)
  then show ?case
    using lt Suc.prems by (simp add: upt_conv_Cons Let_def)
qed

lemma deflate_any_t:
  "length t = n \<Longrightarrow> length t' = n \<Longrightarrow> deflate M [0..<n] (x, t) = deflate M [0..<n] (x, t')"
  by (rule deflate_indep) simp_all

lemma iterative_loop_ncols: "ncols (fst (iterative_loop M Z js (R, t))) = ncols R"
  by (induction js arbitrary: R t) (simp_all add: set_row_simps Let_def)

lemma iterative_loop_length:
  "length (rows (fst (iterative_loop M Z js (R, t)))) = length (rows R)"
  by (induction js arbitrary: R t) (simp_all add: set_row_simps Let_def)

text \<open>
  Row \<open>i\<close> of the batch result of \<open>prediction_iterative\<close> is what the inner loop gives for
  row \<open>i\<close> of the input, started from any score array \<open>t0\<close> of the right length: the array
  left over from the previous row does not matter.
\<close>

lemma iterative_loop_nth:
  "length t = components M \<Longrightarrow> length t0 = components M \<Longrightarrow> i < length (rows R) \<Longrightarrow>
   rows (fst (iterative_loop M Z js (R, t))) ! i =
     (if i \<in> set js
      then combine M (snd (deflate M [0..<components M]
                             (fin_vec (vsub (row Z i) (X_offset M)), t0)))
      else rows R ! i)"
proof (induction js arbitrary: R t)
  case Nil
  then show ?case by simp
next
  case (Cons k js)
  let ?x = "fin_vec (vsub (row Z k) (X_offset M))"
  let ?t = "snd (deflate M [0..<components M] (?x, t))"
  have len: "length ?t = components M"
    using Cons.prems(1) by (simp add: deflate_length)
  have same: "?t = snd (deflate M [0..<components M] (?x, t0))"
    using deflate_any_t [OF Cons.prems(1) Cons.prems(2)] by simp
  have "rows (fst (iterative_loop M Z js (set_row R k (combine M ?t), ?t))) ! i =
          (if i \<in> set js
           then combine M (snd (deflate M [0..<components M]
                                  (fin_vec (vsub (row Z i) (X_offset M)), t0)))
           else rows (set_row R k (combine M ?t)) ! i)"
    using Cons.prems by (intro Cons.IH [OF len]) (simp_all add: set_row_simps)
  then show ?case
    using Cons.prems(3) same by (auto simp: Let_def set_row_simps nth_list_update)
qed

subsection \<open>What \<open>prediction\<close> returns\<close>

lemma fitted_Y_offset_length: "length (Y_offset (fitted X Y g V R)) = shape1 Y"
  by (simp add: fitted_def mean0_def shape1_def)

lemma fitted_B_ncols: "ncols (B (fitted X Y g V R)) = shape1 Y"
  by (simp add: fitted_def B_fit_def Q_fit_def Q_of_def Q_raw_def matmul_def transpose_nd_def
      div_rows_def fin_nd_def shape0_def shape1_def centred_def sub_rows_def)

lemma predict_row_length:
  assumes "fit eigh inverse_fn X Y g = Inr M"
  shows "length (predict_row M z) = shape1 Y"
proof -
  from fit_fields(4) [OF assms] obtain V R where "M = fitted X Y g V R"
    by blast
  then show ?thesis
    by (simp add: predict_row_def vadd_def vecmat_def fin_vec_def fitted_Y_offset_length
        fitted_B_ncols)
qed

lemma predict_row_ex2: "predict_row M_ex [0, 0] = [Fin 0, Fin 0]"
  by (simp add: predict_row_def M_ex_fields nd_defs eval_nat_numeral zero_flt_def)

text \<open>
  C6. For a fitted model, \<open>prediction\<close> of a one-dimensional input \<open>z\<close> as long as there are
  \<open>X\<close> variables is \<open>Y_offset + (z - X_offset).T @ B\<close>, a one-dimensional array as long as
  there are \<open>Y\<close> variables; \<open>prediction\<close> of a two-dimensional input with that many columns
  is the two-dimensional array whose rows are these values for the rows of the input, in
  the order of the input.
\<close>

theorem prediction_formula:
  assumes "fit eigh inverse_fn X Y g = Inr M"
  shows "(length z = shape1 X \<longrightarrow>
            prediction mem M (Arr1 z) =
              Inr (Arr1 (vadd (fin_vec (Y_offset M))
                              (vecmat (fin_vec (vsub z (X_offset M))) (B M)))))
       \<and> length (vadd (fin_vec (Y_offset M)) (vecmat (fin_vec (vsub z (X_offset M))) (B M)))
           = shape1 Y
       \<and> (shape1 Z = shape1 X \<longrightarrow>
            prediction mem M (Arr2 Z) =
              Inr (Arr2 \<lparr>ncols = shape1 Y,
                         rows = map (\<lambda>z. vadd (fin_vec (Y_offset M))
                                              (vecmat (fin_vec (vsub z (X_offset M))) (B M)))
                                    (rows Z)\<rparr>))"
proof -
  have "predict_row M = (\<lambda>z. vadd (fin_vec (Y_offset M))
                                   (vecmat (fin_vec (vsub z (X_offset M))) (B M)))"
    by (simp add: predict_row_def fun_eq_iff)
  then show ?thesis
    using fit_X_variables [OF assms] fit_Y_variables [OF assms] predict_row_length [OF assms, of z]
    by (simp add: prediction_def prediction_loop_all)
qed

theorem prediction_formula_witness:
  "fit eigh_ex inv_ex X_ex Y_ex 2 = Inr M_ex
   \<and> length [2, 1 :: real] = shape1 X_ex \<and> shape1 Z_ex = shape1 X_ex
   \<and> prediction mem_ex M_ex (Arr1 [2, 1]) = Inr (Arr1 [Fin 3, Fin 0])
   \<and> prediction mem_ex M_ex (Arr2 Z_ex) =
       Inr (Arr2 \<lparr>ncols = 2, rows = [[Fin 3, Fin 0], [Fin 0, Fin 0]]\<rparr>)"
  using prediction_formula [OF fit_ex, of "[2, 1]" mem_ex Z_ex]
  by (simp add: fit_ex shape_X_ex shape_Z_ex predict_row_def [symmetric] predict_row_ex
      predict_row_ex2 rows_Z_ex)

subsection \<open>A batch against its rows\<close>

text \<open>
  C8. For a fitted model and a rectangular two-dimensional input \<open>Z\<close> with as many columns
  as there are \<open>X\<close> variables, row \<open>i\<close> of \<open>prediction\<close> of \<open>Z\<close> is \<open>prediction\<close> of row \<open>i\<close>
  of \<open>Z\<close>, and the same holds for \<open>prediction_iterative\<close>, whatever the uninitialised
  arrays of the four calls hold.
\<close>

theorem batch_row_consistency:
  assumes "fit eigh inverse_fn X Y g = Inr M"
    and "wf Z" and "shape1 Z = shape1 X" and "i < shape0 Z"
  shows "\<exists>R r R' r'.
           prediction mem1 M (Arr2 Z) = Inr (Arr2 R)
         \<and> prediction mem2 M (Arr1 (row Z i)) = Inr (Arr1 r)
         \<and> row R i = r
         \<and> prediction_iterative mem3 mem4 M (Arr2 Z) = Inr (Arr2 R')
         \<and> prediction_iterative mem5 mem6 M (Arr1 (row Z i)) = Inr (Arr1 r')
         \<and> row R' i = r'"
proof -
  have len: "length (row Z i) = X_variables M"
    using assms(2,3,4) fit_X_variables [OF assms(1)]
    by (simp add: wf_def list_all_length row_def shape0_def shape1_def)
  have width: "shape1 Z = X_variables M"
    using assms(3) fit_X_variables [OF assms(1)] by simp
  have "row (prediction_loop M Z [0..<shape0 Z] (np_empty2 mem1 (shape0 Z) (Y_variables M))) i
          = predict_row M (row Z i)"
    using assms(4) [unfolded shape0_def] by (simp add: prediction_loop_all row_def)
  moreover have
    "row (fst (iterative_loop M Z [0..<shape0 Z]
                 (np_empty2 mem3 (shape0 Z) (Y_variables M), np_empty mem4 (components M)))) i
       = combine M (snd (deflate M [0..<components M]
                           (fin_vec (vsub (row Z i) (X_offset M)),
                            np_empty mem6 (components M))))"
    using assms(4)
    by (simp add: row_def [of "fst _"] iterative_loop_nth [where ?t0.0 = "np_empty mem6 (components M)"]
        np_empty_def np_empty2_simps)
  ultimately show ?thesis
    using len width by (simp add: prediction_def prediction_iterative_def)
qed

theorem batch_row_consistency_witness:
  "fit eigh_ex inv_ex X_ex Y_ex 2 = Inr M_ex \<and> wf Z_ex \<and> shape1 Z_ex = shape1 X_ex
   \<and> 1 < shape0 Z_ex
   \<and> (\<exists>R r R' r'.
           prediction mem_ex M_ex (Arr2 Z_ex) = Inr (Arr2 R)
         \<and> prediction mem_ex M_ex (Arr1 (row Z_ex 1)) = Inr (Arr1 r)
         \<and> row R 1 = r
         \<and> prediction_iterative mem_ex mem_ex M_ex (Arr2 Z_ex) = Inr (Arr2 R')
         \<and> prediction_iterative mem_ex mem_ex M_ex (Arr1 (row Z_ex 1)) = Inr (Arr1 r')
         \<and> row R' 1 = r')"
proof -
  have w: "shape1 Z_ex = shape1 X_ex" and i: "1 < shape0 Z_ex"
    by (simp_all add: shape_X_ex shape_Z_ex)
  from batch_row_consistency [OF fit_ex shape_Z_ex(7) w i, of mem_ex mem_ex mem_ex mem_ex mem_ex mem_ex]
  show ?thesis
    using fit_ex shape_Z_ex(7) w i by blast
qed

subsection \<open>The columns of \<open>W\<close>\<close>

lemma eigh_arg_ncols: "ncols (eigh_arg X Y) = shape1 X"
  by (simp add: eigh_arg_def XtY_def matmul_def transpose_nd_def shape0_def shape1_def centred_def
      sub_rows_def)

lemma rev_slice_take:
  "1 \<le> g \<Longrightarrow> g \<le> int n \<Longrightarrow> rev_slice n (- g - 1) = map (\<lambda>k. n - 1 - k) [0..<nat g]"
  by (auto simp: rev_slice_def Let_def intro!: arg_cong2 [where f = upt] arg_cong [where f = "map _"])

lemma take_cols_col: "j < length idx \<Longrightarrow> col (take_cols V idx) j = col V (idx ! j)"
  by (simp add: col_def take_cols_def)

lemma select_W_cols:
  assumes "1 \<le> g" and "g \<le> int (shape1 V)"
  shows "ncols (select_W V g) = nat g"
    and "shape0 (select_W V g) = shape0 V"
    and "j < nat g \<Longrightarrow> col (select_W V g) j = col V (shape1 V - 1 - j)"
  using assms by (simp_all add: select_W_def rev_slice_take take_cols_col) 
    (simp_all add: take_cols_def shape0_def)

lemma eigh_returns_ex: "eigh_returns (eigh_arg X_ex Y_ex) [9, 36] V_ex"
  by (simp add: eigh_returns_def eigh_arg_ex V_ex_def wf_def matvec_def nd_defs eval_nat_numeral)

text \<open>
  C4. Let \<open>eigh\<close> return, for the matrix \<open>S @ S.T\<close> with \<open>S = Xc.T @ Yc\<close>, eigenvalues \<open>ev\<close>
  in ascending order and unit eigenvectors as the columns of \<open>V\<close>. Then the fitted \<open>W\<close> has
  \<open>g\<close> columns; column \<open>j\<close> is the eigenvector that \<open>eigh\<close> returned for the eigenvalue
  \<open>ev[p - 1 - j]\<close>, counted from the largest; the eigenvalues do not increase from one
  component to the next; and no eigenvalue left out is larger than a selected one.
\<close>

theorem W_columns:
  assumes "fit eigh inverse_fn X Y g = Inr M"
    and "eigh (eigh_arg X Y) = Inr (ev, V)"
    and "eigh_returns (eigh_arg X Y) ev V"
  shows "ncols (W M) = nat g \<and> shape0 (W M) = shape1 X
       \<and> (\<forall>j<nat g. col (W M) j = col V (shape1 X - 1 - j)
              \<and> matvec (eigh_arg X Y) (col (W M) j) = smul (ev ! (shape1 X - 1 - j)) (col (W M) j)
              \<and> dot (col (W M) j) (col (W M) j) = 1)
       \<and> (\<forall>j. Suc j < nat g \<longrightarrow> ev ! (shape1 X - 1 - Suc j) \<le> ev ! (shape1 X - 1 - j))
       \<and> (\<forall>i j. i < shape1 X - nat g \<longrightarrow> j < nat g \<longrightarrow> ev ! i \<le> ev ! (shape1 X - 1 - j))"
proof -
  from fit_fields [OF assms(1)] assms(2) obtain R
    where g: "1 \<le> g" "g \<le> int (min (shape0 X) (shape1 X))" and M: "M = fitted X Y g V R"
    by auto
  have V: "shape1 V = shape1 X" "shape0 V = shape1 X" "length ev = shape1 X" "sorted ev"
    using assms(3) by (simp_all add: eigh_returns_def eigh_arg_ncols shape1_def)
  have gV: "g \<le> int (shape1 V)"
    using g(2) V(1) by simp
  have WM: "W M = select_W V g"
    by (simp add: M fitted_def)
  have eig: "matvec (eigh_arg X Y) (col V k) = smul (ev ! k) (col V k) \<and> dot (col V k) (col V k) = 1"
    if "k < shape1 X" for k
    using assms(3) that by (simp add: eigh_returns_def eigh_arg_ncols list_all_iff)
  have cols: "col (W M) j = col V (shape1 X - 1 - j)" if "j < nat g" for j
    using select_W_cols(3) [OF g(1) gV that] V(1) by (simp add: WM)
  have pos: "shape1 X - 1 - j < shape1 X" if "j < nat g" for j
    using that gV V(1) by linarith
  have "ncols (W M) = nat g" "shape0 (W M) = shape1 X"
    using select_W_cols(1,2) [OF g(1) gV] V(2) by (simp_all add: WM)
  moreover have "\<forall>j<nat g. col (W M) j = col V (shape1 X - 1 - j)
              \<and> matvec (eigh_arg X Y) (col (W M) j) = smul (ev ! (shape1 X - 1 - j)) (col (W M) j)
              \<and> dot (col (W M) j) (col (W M) j) = 1"
    using cols eig pos by simp
  moreover have "\<forall>j. Suc j < nat g \<longrightarrow> ev ! (shape1 X - 1 - Suc j) \<le> ev ! (shape1 X - 1 - j)"
    using V(3,4) gV V(1) by (auto intro!: sorted_nth_mono)
  moreover have "\<forall>i j. i < shape1 X - nat g \<longrightarrow> j < nat g \<longrightarrow> ev ! i \<le> ev ! (shape1 X - 1 - j)"
    using V(3,4) gV V(1) by (auto intro!: sorted_nth_mono)
  ultimately show ?thesis by blast
qed

theorem W_columns_witness:
  "fit eigh_ex inv_ex X_ex Y_ex 2 = Inr M_ex
   \<and> eigh_ex (eigh_arg X_ex Y_ex) = Inr ([9, 36], V_ex)
   \<and> eigh_returns (eigh_arg X_ex Y_ex) [9, 36] V_ex
   \<and> ncols (W M_ex) = 2
   \<and> col (W M_ex) 0 = [0, 1] \<and> matvec (eigh_arg X_ex Y_ex) [0, 1] = smul 36 [0, 1]
   \<and> col (W M_ex) 1 = [1, 0] \<and> matvec (eigh_arg X_ex Y_ex) [1, 0] = smul 9 [1, 0]"
proof -
  have c: "col (W M_ex) 0 = [0, 1]" "col (W M_ex) 1 = [1, 0]" "col (W M_ex) (Suc 0) = [1, 0]"
    by (simp_all add: M_ex_fields col_def)
  note w = W_columns [OF fit_ex eigh_ex_ex eigh_returns_ex]
  from w have n: "ncols (W M_ex) = nat 2"
    by blast
  from w have e: "matvec (eigh_arg X_ex Y_ex) (col (W M_ex) j) =
                    smul ([9, 36] ! (shape1 X_ex - 1 - j)) (col (W M_ex) j)"
    if "j < nat 2" for j
    using that by blast
  have "matvec (eigh_arg X_ex Y_ex) (col (W M_ex) 0) =
          smul ([9, 36] ! (shape1 X_ex - 1 - 0)) (col (W M_ex) 0)"
    by (rule e) simp
  moreover have "matvec (eigh_arg X_ex Y_ex) (col (W M_ex) 1) =
          smul ([9, 36] ! (shape1 X_ex - 1 - 1)) (col (W M_ex) 1)"
    by (rule e) simp
  ultimately show ?thesis
    using n by (simp add: fit_ex eigh_ex_ex eigh_returns_ex c shape_X_ex)
qed

subsection \<open>The columns of \<open>Q\<close>\<close>

lemma Q_raw_shape:
  "ncols (Q_raw Yc T') = ncols T'"
  "r \<in> set (rows (Q_raw Yc T')) \<Longrightarrow> length r = ncols T'"
  by (auto simp: Q_raw_def matmul_def vecmat_def)

lemma Q_of_ncols: "ncols (Q_of Yc T') = ncols T'"
  by (simp add: Q_of_def div_rows_def fin_nd_def Q_raw_shape)

lemma Q_of_col:
  assumes "j < ncols T'"
  shows "col (Q_of Yc T') j =
           map (\<lambda>x. fdiv (Fin x) (norm2 (col (Q_raw Yc T') j))) (col (Q_raw Yc T') j)"
proof -
  have "(map2 fdiv (map Fin r) (norm0 (Q_raw Yc T'))) ! j =
          fdiv (Fin (r ! j)) (norm2 (col (Q_raw Yc T') j))"
    if "r \<in> set (rows (Q_raw Yc T'))" for r
    using assms Q_raw_shape(2) [OF that] by (simp add: norm0_def Q_raw_shape(1))
  then show ?thesis
    by (simp add: Q_of_def col_def div_rows_def fin_nd_def vdiv_def fin_vec_def)
qed

lemma norm2_eq_0_iff: "norm2 v = 0 \<longleftrightarrow> list_all (\<lambda>x. x = 0) v"
proof -
  have "sum_list (map (\<lambda>x. x * x) v) = 0 \<longleftrightarrow> (\<forall>x\<in>set v. x = 0)"
    by (subst sum_list_nonneg_eq_0_iff) auto
  then show ?thesis
    by (simp add: norm2_def list_all_iff)
qed

lemma sum_list_squares_div:
  "sum_list (map (\<lambda>x. (x / n) * (x / n)) v) = sum_list (map (\<lambda>x. x * x) v) / (n * n :: real)"
  by (induction v) (simp_all add: add_divide_distrib)

lemma norm2_normalised:
  assumes "norm2 v \<noteq> 0"
  shows "norm2 (map (\<lambda>x. x / norm2 v) v) = 1"
proof -
  let ?s = "sum_list (map (\<lambda>x. x * x) v)"
  have nonneg: "0 \<le> ?s"
    by (rule sum_list_nonneg) auto
  with assms have pos: "0 < ?s"
    by (simp add: norm2_def less_le)
  have sq: "norm2 v * norm2 v = ?s"
    using nonneg by (simp add: norm2_def)
  have "sum_list (map (\<lambda>x. (x / norm2 v) * (x / norm2 v)) v) = ?s / (norm2 v * norm2 v)"
    by (rule sum_list_squares_div)
  also have "\<dots> = 1"
    using pos by (simp add: sq)
  finally have "sqrt (sum_list (map (\<lambda>x. (x / norm2 v) * (x / norm2 v)) v)) = 1"
    by simp
  then show ?thesis
    by (simp only: norm2_def [of "map _ _"] list.map_comp comp_def)
qed

text \<open>The calibration set with the constant \<open>Y\<close>\<close>

lemma eigh_arg_flat: "eigh_arg X_ex Y_flat = \<lparr>ncols = 2, rows = [[0, 0], [0, 0]]\<rparr>"
  by (simp add: eigh_arg_def XtY_def centred_X_ex centred_Y_flat nd_defs eval_nat_numeral)

lemma eigh_ex_flat: "eigh_ex (eigh_arg X_ex Y_flat) = Inr ([0, 0], V_ex)"
  by (simp add: eigh_arg_flat eigh_ex_def)

lemma Q_raw_flat: "Q_raw (centred Y_flat) (T_fit X_ex V_ex 2) = \<lparr>ncols = 2, rows = [[0, 0], [0, 0]]\<rparr>"
  by (simp add: Q_raw_def T_fit_ex centred_Y_flat nd_defs eval_nat_numeral)

lemma Q_fit_flat:
  "Q_fit X_ex Y_flat V_ex 2 = \<lparr>ncols = 2, rows = [[NonFinite, NonFinite], [NonFinite, NonFinite]]\<rparr>"
  by (simp add: Q_fit_def Q_of_def Q_raw_flat nd_defs eval_nat_numeral)

lemma fit_flat: "fit eigh_ex inv_ex X_ex Y_flat 2 = Inr M_flat"
  by (simp add: fit_unfold shape_X_ex shape_Y_flat eigh_ex_flat inv_ex_ex M_flat_def)

lemma eigh_returns_flat: "eigh_returns (eigh_arg X_ex Y_flat) [0, 0] V_ex"
  by (simp add: eigh_returns_def eigh_arg_flat V_ex_def wf_def matvec_def nd_defs eval_nat_numeral)

lemma Q_M_flat:
  "Q M_flat = \<lparr>ncols = 2, rows = [[NonFinite, NonFinite], [NonFinite, NonFinite]]\<rparr>"
  by (simp add: M_flat_def fitted_def Q_fit_flat)

text \<open>
  C5, as the claim states it, fails. When every column of \<open>Y\<close> is constant, \<open>Yc\<close> is zero
  and so is \<open>Yc.T @ T\<close>; the norms of its columns are zero, the division is \<open>0 / 0\<close>, and
  the constructor returns a model whose \<open>Q\<close> holds no finite value.
\<close>

theorem Q_normalised_counterexample:
  "fit eigh_ex inv_ex X_ex Y_flat 2 = Inr M_flat
   \<and> eigh_returns (eigh_arg X_ex Y_flat) [0, 0] V_ex
   \<and> col (Q M_flat) 0 = [NonFinite, NonFinite]
   \<and> col (Q M_flat) 1 = [NonFinite, NonFinite]"
  by (simp add: fit_flat eigh_returns_flat Q_M_flat col_def)

text \<open>
  C5, amended. In a fitted model, a column of \<open>Q\<close> whose column of \<open>Yc.T @ T\<close> is not
  zero is finite and has Euclidean norm 1; a column whose column of \<open>Yc.T @ T\<close> is zero
  holds only non-finite values.
\<close>

theorem Q_columns:
  assumes "fit eigh inverse_fn X Y g = Inr M" and "j < ncols (Q M)"
  shows "(\<not> list_all (\<lambda>x. x = 0) (col (Q_raw (centred Y) (T M)) j) \<longrightarrow>
            (\<exists>v. col (Q M) j = fin_vec v \<and> norm2 v = 1))
       \<and> (list_all (\<lambda>x. x = 0) (col (Q_raw (centred Y) (T M)) j) \<longrightarrow>
            list_all (\<lambda>x. x = NonFinite) (col (Q M) j))"
proof -
  from fit_fields(4) [OF assms(1)] obtain V R where M: "M = fitted X Y g V R"
    by blast
  let ?c = "col (Q_raw (centred Y) (T M)) j"
  have Q: "Q M = Q_of (centred Y) (T M)"
    by (simp add: M fitted_def Q_fit_def)
  with assms(2) have j: "j < ncols (T M)"
    by (simp add: Q_of_ncols)
  have col: "col (Q M) j = map (\<lambda>x. fdiv (Fin x) (norm2 ?c)) ?c"
    by (simp add: Q Q_of_col [OF j])
  show ?thesis
  proof (cases "norm2 ?c = 0")
    case True
    with col show ?thesis
      by (simp add: norm2_eq_0_iff list_all_iff)
  next
    case False
    then have "col (Q M) j = fin_vec (map (\<lambda>x. x / norm2 ?c) ?c)"
      by (simp add: col fin_vec_def)
    with False norm2_normalised [OF False] show ?thesis
      by (auto simp: norm2_eq_0_iff)
  qed
qed

theorem Q_columns_witness:
  "fit eigh_ex inv_ex X_ex Y_ex 2 = Inr M_ex \<and> 0 < ncols (Q M_ex)
   \<and> \<not> list_all (\<lambda>x. x = 0) (col (Q_raw (centred Y_ex) (T M_ex)) 0)
   \<and> (\<exists>v. col (Q M_ex) 0 = fin_vec v \<and> norm2 v = 1)
   \<and> fit eigh_ex inv_ex X_ex Y_flat 2 = Inr M_flat \<and> 0 < ncols (Q M_flat)
   \<and> list_all (\<lambda>x. x = 0) (col (Q_raw (centred Y_flat) (T M_flat)) 0)
   \<and> list_all (\<lambda>x. x = NonFinite) (col (Q M_flat) 0)"
proof -
  have n: "0 < ncols (Q M_ex)" "0 < ncols (Q M_flat)"
    by (simp_all add: M_ex_fields Q_M_flat)
  have ex: "\<not> list_all (\<lambda>x. x = 0) (col (Q_raw (centred Y_ex) (T M_ex)) 0)"
    by (simp add: M_ex_def fitted_def Q_raw_ex col_def)
  have flat: "list_all (\<lambda>x. x = 0) (col (Q_raw (centred Y_flat) (T M_flat)) 0)"
    by (simp add: M_flat_def fitted_def Q_raw_flat col_def)
  from Q_columns [OF fit_ex n(1)] Q_columns [OF fit_flat n(2)] ex flat
  show ?thesis
    using fit_ex fit_flat n by blast
qed

subsection \<open>The constructor and the buffers of its arguments\<close>

text \<open>
  The rules by which a computation keeps the first \<open>n\<close> buffers: reading keeps them, a
  sequence keeps them when its parts do, an allocation returns an address behind them, and a
  division in place keeps them when it targets such an address.
\<close>

lemma keeps_return: "keeps n (State_Monad.return a)"
  by (simp add: keeps_def)

lemma keeps_reading: "keeps n (reading f)"
  by (simp add: keeps_def reading_def)

lemma keepsD:
  "keeps n m \<Longrightarrow> n \<le> length s \<Longrightarrow> run_state m s = (a, s') \<Longrightarrow>
   n \<le> length s' \<and> take n s' = take n s"
  unfolding keeps_def by (drule spec [of _ s]) simp

lemma keeps_bind:
  assumes "keeps n m" and "\<And>a. keeps n (f a)"
  shows "keeps n (State_Monad.bind m f)"
  unfolding keeps_def
proof (intro allI impI)
  fix s :: store
  assume n: "n \<le> length s"
  obtain a s1 where m: "run_state m s = (a, s1)"
    by (cases "run_state m s")
  obtain b s2 where f: "run_state (f a) s1 = (b, s2)"
    by (cases "run_state (f a) s1")
  from keepsD [OF assms(1) n m] have 1: "n \<le> length s1" "take n s1 = take n s"
    by simp_all
  from keepsD [OF assms(2) 1(1) f] 1(2) m f
  show "case run_state (State_Monad.bind m f) s of
          (a, s') \<Rightarrow> n \<le> length s' \<and> take n s' = take n s"
    by simp
qed

lemma keeps_new:
  assumes "\<And>a. n \<le> a \<Longrightarrow> keeps n (f a)"
  shows "keeps n (State_Monad.bind (new v) f)"
  unfolding keeps_def
proof (intro allI impI)
  fix s :: store
  assume n: "n \<le> length s"
  obtain b s2 where f: "run_state (f (length s)) (s @ [v s]) = (b, s2)"
    by (cases "run_state (f (length s)) (s @ [v s])")
  have "n \<le> length (s @ [v s])"
    using n by simp
  from keepsD [OF assms [OF n] this f] n f
  show "case run_state (State_Monad.bind (new v) f) s of
          (a, s') \<Rightarrow> n \<le> length s' \<and> take n s' = take n s"
    by (simp add: new_def)
qed

lemma keeps_divide: "n \<le> a \<Longrightarrow> keeps n (divide_in_place a d)"
  by (simp add: keeps_def divide_in_place_def)

lemma keeps_if:
  "(c \<Longrightarrow> keeps n a) \<Longrightarrow> (\<not> c \<Longrightarrow> keeps n b) \<Longrightarrow> keeps n (if c then a else b)"
  by simp

lemma keeps_case_sum:
  "(\<And>e. r = Inl e \<Longrightarrow> keeps n (f e)) \<Longrightarrow> (\<And>x. r = Inr x \<Longrightarrow> keeps n (h x)) \<Longrightarrow>
   keeps n (case r of Inl e \<Rightarrow> f e | Inr x \<Rightarrow> h x)"
  by (cases r) simp_all

lemma keeps_case_prod: "(\<And>a b. keeps n (f a b)) \<Longrightarrow> keeps n (case p of (a, b) \<Rightarrow> f a b)"
  by (cases p) simp

text \<open>The constructor is built from these statements only.\<close>

lemma fit_store_keeps: "keeps n (fit_store eigh inverse_fn X Y g)"
  unfolding fit_store_def
  by (intro keeps_new keeps_bind keeps_reading keeps_if keeps_return keeps_case_sum keeps_case_prod
      keeps_divide)

text \<open>
  To compare the constructor on a store with \<open>fit\<close>, it is run on the store \<open>s0 @ l\<close>,
  where \<open>s0\<close> is the store of the caller and \<open>l\<close> lists the buffers allocated so far; the
  address of the \<open>k\<close>-th of them is \<open>addr s0 k\<close>.
\<close>

lemma run_new: "run_state (new v) (s0 @ l) = (addr s0 (length l), s0 @ (l @ [v (s0 @ l)]))"
  by (simp add: new_def addr_def)

lemma run_reading: "run_state (reading f) s = (f s, s)"
  by (simp add: reading_def)

lemma run_divide:
  "run_state (divide_in_place a d) s = ((), s[a := Flt2 (div_rows (f2 (s ! a)) (r1 (s ! d)))])"
  by (simp add: divide_in_place_def)

lemma nth_old: "a < length s0 \<Longrightarrow> (s0 @ l) ! a = s0 ! a"
  by (simp add: nth_append)

lemma nth_addr: "(s0 @ l) ! addr s0 k = l ! k"
  by (simp add: addr_def)

lemma upd_addr: "(s0 @ l)[addr s0 k := v] = s0 @ l[k := v]"
  by (simp add: addr_def list_update_append)

lemma bind_weak_cong: "m = m' \<Longrightarrow> State_Monad.bind m f = State_Monad.bind m' f"
  by simp

lemmas run_simps = run_reading run_new run_divide nth_old nth_addr upd_addr

text \<open>
  The constructor on a store returns what \<open>fit\<close> returns on the contents of the buffers of
  \<open>X\<close> and \<open>Y\<close>: no statement reads a buffer that a later statement has changed under it.
\<close>

lemma fit_store_value':
  assumes "X < length s" and "Y < length s"
  shows "fst (run_state (fit_store eigh inverse_fn X Y g) (s @ [])) =
           fit eigh inverse_fn (r2 (s ! X)) (r2 (s ! Y)) g"
proof -
  define Xv Yv where "Xv = r2 (s ! X)" and "Yv = r2 (s ! Y)"
  define xo yo where "xo = mean0 Xv" and "yo = mean0 Yv"
  define xc yc where "xc = sub_rows Xv xo" and "yc = sub_rows Yv yo"
  define xty where "xty = matmul (transpose_nd xc) yc"
  define arg where "arg = matmul xty (transpose_nd xty)"
  note fold1 = Xv_def [symmetric] Yv_def [symmetric] xo_def [symmetric] yo_def [symmetric]
    xc_def [symmetric] yc_def [symmetric] xty_def [symmetric] arg_def [symmetric]
  have arg: "eigh_arg Xv Yv = arg"
    by (simp add: eigh_arg_def XtY_def centred_def fold1)
  show ?thesis
  proof (cases "shape0 Xv \<noteq> shape0 Yv \<or> g < 1 \<or> g > int (min (shape0 Xv) (shape1 Xv))")
    case True
    then show ?thesis
      using assms by (auto simp: fit_store_def fit_unfold run_simps fold1 simp del: append_Nil2 cong: bind_weak_cong)
  next
    case False
    show ?thesis
    proof (cases "eigh arg")
      case (Inl e)
      with False assms show ?thesis
        by (simp add: fit_store_def fit_unfold run_simps fold1 arg del: append_Nil2 cong: bind_weak_cong)
    next
      case (Inr p)
      obtain ev V where p: "p = (ev, V)"
        by (cases p)
      define w where "w = select_W V g"
      define t where "t = matmul xc w"
      define qr where "qr = matmul (transpose_nd yc) t"
      define nm where "nm = norm0 qr"
      define q where "q = div_rows (fin_nd qr) nm"
      define u where "u = matmul (fin_nd yc) q"
      define tt where "tt = matmul (transpose_nd t) t"
      define tu where "tu = matmul (fin_nd (transpose_nd t)) u"
      define cv where "cv = vdiv (diagonal tu) (diagonal tt)"
      define cm where "cm = np_diag cv"
      define xt where "xt = matmul (transpose_nd xc) t"
      define pm where "pm = div_rows (fin_nd xt) (diagonal tt)"
      define pw where "pw = matmul (transpose_nd pm) (fin_nd w)"
      note fold2 = w_def [symmetric] t_def [symmetric] qr_def [symmetric] nm_def [symmetric]
        q_def [symmetric] u_def [symmetric] tt_def [symmetric] tu_def [symmetric]
        cv_def [symmetric] cm_def [symmetric] xt_def [symmetric] pm_def [symmetric]
        pw_def [symmetric]
      have pw: "inv_arg Xv V g = pw"
        by (simp add: inv_arg_def P_fit_def T_fit_def t_dot_t_fit_def centred_def fold1 fold2)
      show ?thesis
      proof (cases "inverse_fn pw")
        case (Inl e)
        with False assms \<open>eigh arg = Inr p\<close> p show ?thesis
          by (simp add: fit_store_def fit_unfold run_simps fold1 fold2 arg pw del: append_Nil2 cong: bind_weak_cong)
      next
        case (Inr R)
        define wr where "wr = matmul (fin_nd w) R"
        define wrc where "wrc = matmul wr cm"
        define b where "b = matmul wrc (transpose_nd q)"
        note fold3 = wr_def [symmetric] wrc_def [symmetric] b_def [symmetric]
        have model: "fitted Xv Yv g V R =
            \<lparr>max_rank = min (shape0 Xv) (shape1 Xv), data_samples = shape0 Xv,
             X_variables = shape1 Xv, Y_variables = shape1 Yv, components = nat g,
             X_offset = xo, Y_offset = yo, W = w, T = t, Q = q, U = u, C = cm, P = pm, B = b\<rparr>"
          by (simp add: fitted_def T_fit_def Q_fit_def U_fit_def t_dot_t_fit_def C_fit_def
              P_fit_def B_fit_def Q_of_def Q_raw_def centred_def fold1 fold2 fold3)
        from False assms \<open>eigh arg = Inr p\<close> p Inr show ?thesis
          by (simp add: fit_store_def fit_unfold run_simps fold1 fold2 fold3 arg pw model del: append_Nil2 cong: bind_weak_cong)
      qed
    qed
  qed
qed

lemma fit_store_value:
  assumes "X < length s" and "Y < length s"
  shows "fst (run_state (fit_store eigh inverse_fn X Y g) s) =
           fit eigh inverse_fn (r2 (s ! X)) (r2 (s ! Y)) g"
  using fit_store_value' [OF assms] by simp

text \<open>
  C2. When \<open>X\<close> and \<open>Y\<close> differ in their number of rows, the constructor raises the
  \<open>ParameterError\<close> of its first check. This holds for every \<open>eigh\<close> and every \<open>inv\<close>, also
  for routines that raise whenever they are called: the outcome is decided before either is
  reached. On a store, the constructor then returns with the store as it found it: it has
  not allocated a single array.
\<close>

theorem fit_rows_mismatch:
  assumes "shape0 X \<noteq> shape0 Y"
  shows "fit eigh inverse_fn X Y g =
           Inl (ParameterError ''X and Y data must have the same number of rows (data samples)'')
       \<and> (r2 (s ! a) = X \<and> r2 (s ! b) = Y \<longrightarrow>
            run_state (fit_store eigh inverse_fn a b g) s =
              (Inl (ParameterError
                 ''X and Y data must have the same number of rows (data samples)''), s))"
  using assms by (auto simp: fit_def fit_store_def run_reading rows_error_def)

theorem fit_rows_mismatch_witness:
  "shape0 X_ex \<noteq> shape0 Y_one \<and> r2 ([Real2 X_ex, Real2 Y_one] ! 0) = X_ex
   \<and> r2 ([Real2 X_ex, Real2 Y_one] ! 1) = Y_one
   \<and> fit raising raising X_ex Y_one 2 =
       Inl (ParameterError ''X and Y data must have the same number of rows (data samples)'')
   \<and> run_state (fit_store raising raising 0 1 2) [Real2 X_ex, Real2 Y_one] =
       (Inl (ParameterError ''X and Y data must have the same number of rows (data samples)''),
        [Real2 X_ex, Real2 Y_one])"
proof -
  have ne: "shape0 X_ex \<noteq> shape0 Y_one"
    by (simp add: shape0_def X_ex_def Y_one_def)
  from fit_rows_mismatch [OF ne, of raising raising 2 "[Real2 X_ex, Real2 Y_one]" 0 1] ne
  show ?thesis by simp
qed

text \<open>
  C9. Run on any store in which \<open>X\<close> and \<open>Y\<close> are addresses of buffers (the same buffer
  or different ones), the constructor, whether it returns a model or raises, leaves every
  buffer that existed before the call as it was, the buffers of \<open>X\<close> and \<open>Y\<close> among them:
  what it allocates lies behind them, and its one write in place, the division of \<open>Q\<close>,
  goes to a buffer it allocated itself. Its result is that of \<open>fit\<close> on the
  contents of the two buffers.
\<close>

theorem fit_store_frame:
  assumes "run_state (fit_store eigh inverse_fn X Y g) s = (res, s')"
    and "X < length s" and "Y < length s"
  shows "s' ! X = s ! X \<and> s' ! Y = s ! Y \<and> take (length s) s' = s
       \<and> res = fit eigh inverse_fn (r2 (s ! X)) (r2 (s ! Y)) g"
proof -
  from keepsD [OF fit_store_keeps _ assms(1), of "length s"]
  have t: "take (length s) s' = s" and l: "length s \<le> length s'"
    by simp_all
  have "s' ! a = s ! a" if "a < length s" for a
    using that t by (metis nth_take)
  with t assms fit_store_value [OF assms(2,3), of eigh inverse_fn g] show ?thesis
    by simp
qed

theorem fit_store_frame_witness:
  "run_state (fit_store eigh_ex inv_ex 0 1 2) s_ex =
     (fst (run_state (fit_store eigh_ex inv_ex 0 1 2) s_ex),
      snd (run_state (fit_store eigh_ex inv_ex 0 1 2) s_ex))
   \<and> 0 < length s_ex \<and> 1 < length s_ex
   \<and> snd (run_state (fit_store eigh_ex inv_ex 0 1 2) s_ex) ! 0 = Real2 X_ex
   \<and> snd (run_state (fit_store eigh_ex inv_ex 0 1 2) s_ex) ! 1 = Real2 Y_ex
   \<and> fst (run_state (fit_store eigh_ex inv_ex 0 1 2) s_ex) = Inr M_ex"
proof -
  have r: "run_state (fit_store eigh_ex inv_ex 0 1 2) s_ex =
     (fst (run_state (fit_store eigh_ex inv_ex 0 1 2) s_ex),
      snd (run_state (fit_store eigh_ex inv_ex 0 1 2) s_ex))"
    by simp
  have a: "0 < length s_ex" "1 < length s_ex"
    by (simp_all add: s_ex_def)
  from fit_store_frame [OF r a] r a show ?thesis
    by (simp add: s_ex_def fit_ex)
qed

subsection \<open>The shapes of the fitted arrays\<close>

text \<open>
  The products and the elementwise operations of the model are total, while numpy raises
  on operands that do not fit. For rectangular calibration data of \<open>n\<close> rows, an \<open>eigh\<close>
  that returns a \<open>p\<close> by \<open>p\<close> matrix and an \<open>inv\<close> that returns a \<open>g\<close> by \<open>g\<close> matrix, the
  arrays of the fitted model have the shapes of the data model, so every product of the
  constructor and of the two prediction methods is between operands that fit.
\<close>

lemma has_shape_matmul:
  "has_shape M1 n k \<Longrightarrow> has_shape M2 k' l \<Longrightarrow> has_shape (matmul M1 M2) n l"
  by (simp add: has_shape_def wf_def matmul_def vecmat_def shape0_def list_all_iff)

lemma has_shape_transpose: "has_shape M n k \<Longrightarrow> has_shape (transpose_nd M) k n"
  by (simp add: has_shape_def wf_def transpose_nd_def col_def shape0_def list_all_iff)

lemma has_shape_sub_rows: "has_shape M n k \<Longrightarrow> length v = k \<Longrightarrow> has_shape (sub_rows M v) n k"
  by (simp add: has_shape_def wf_def sub_rows_def vsub_def shape0_def list_all_iff)

lemma has_shape_div_rows: "has_shape M n k \<Longrightarrow> length d = k \<Longrightarrow> has_shape (div_rows M d) n k"
  by (simp add: has_shape_def wf_def div_rows_def vdiv_def shape0_def list_all_iff)

lemma has_shape_fin_nd: "has_shape M n k \<Longrightarrow> has_shape (fin_nd M) n k"
  by (simp add: has_shape_def wf_def fin_nd_def fin_vec_def shape0_def list_all_iff)

lemma has_shape_np_diag: "has_shape (np_diag v) (length v) (length v)"
  by (simp add: has_shape_def wf_def np_diag_def shape0_def list_all_iff)

lemma length_mean0: "length (mean0 M) = ncols M"
  by (simp add: mean0_def)

lemma length_norm0: "length (norm0 M) = ncols M"
  by (simp add: norm0_def)

lemma length_diagonal: "has_shape M n n \<Longrightarrow> length (diagonal M) = n"
  by (simp add: has_shape_def diagonal_def)

lemma has_shape_centred: "has_shape M n k \<Longrightarrow> has_shape (centred M) n k"
  unfolding centred_def by (rule has_shape_sub_rows) (simp_all add: length_mean0 has_shape_def)

lemma has_shape_select_W:
  "has_shape V p p \<Longrightarrow> 1 \<le> g \<Longrightarrow> g \<le> int p \<Longrightarrow> has_shape (select_W V g) p (nat g)"
  by (simp add: has_shape_def select_W_def rev_slice_take shape1_def)
     (simp add: take_cols_def wf_def shape0_def list_all_iff)

lemma fitted_shapes:
  assumes X: "has_shape X n p" and Y: "has_shape Y n m"
    and g: "1 \<le> g" "g \<le> int p"
    and V: "has_shape V p p" and R: "has_shape R (nat g) (nat g)"
  shows "has_shape (W (fitted X Y g V R)) p (nat g)"
    and "has_shape (T (fitted X Y g V R)) n (nat g)"
    and "has_shape (Q (fitted X Y g V R)) m (nat g)"
    and "has_shape (U (fitted X Y g V R)) n (nat g)"
    and "has_shape (C (fitted X Y g V R)) (nat g) (nat g)"
    and "has_shape (P (fitted X Y g V R)) p (nat g)"
    and "has_shape (B (fitted X Y g V R)) p m"
    and "length (X_offset (fitted X Y g V R)) = p"
    and "length (Y_offset (fitted X Y g V R)) = m"
proof -
  note Xc = has_shape_centred [OF X] and Yc = has_shape_centred [OF Y]
  have w: "has_shape (select_W V g) p (nat g)"
    by (rule has_shape_select_W [OF V g])
  have t: "has_shape (T_fit X V g) n (nat g)"
    unfolding T_fit_def by (rule has_shape_matmul [OF Xc w])
  have qr: "has_shape (Q_raw (centred Y) (T_fit X V g)) m (nat g)"
    unfolding Q_raw_def by (rule has_shape_matmul [OF has_shape_transpose [OF Yc] t])
  have q: "has_shape (Q_fit X Y V g) m (nat g)"
    unfolding Q_fit_def Q_of_def using qr
    by (intro has_shape_div_rows has_shape_fin_nd) (simp_all add: length_norm0 has_shape_def)
  have u: "has_shape (U_fit X Y V g) n (nat g)"
    unfolding U_fit_def by (rule has_shape_matmul [OF has_shape_fin_nd [OF Yc] q])
  have tt: "length (t_dot_t_fit X V g) = nat g"
    unfolding t_dot_t_fit_def
    by (rule length_diagonal [OF has_shape_matmul [OF has_shape_transpose [OF t] t]])
  have tu: "length (diagonal (matmul (fin_nd (transpose_nd (T_fit X V g))) (U_fit X Y V g))) = nat g"
    by (rule length_diagonal
        [OF has_shape_matmul [OF has_shape_fin_nd [OF has_shape_transpose [OF t]] u]])
  have c: "has_shape (C_fit X Y V g) (nat g) (nat g)"
    using has_shape_np_diag
      [of "vdiv (diagonal (matmul (fin_nd (transpose_nd (T_fit X V g))) (U_fit X Y V g)))
                (t_dot_t_fit X V g)"]
    by (simp add: C_fit_def vdiv_def tt tu)
  have p: "has_shape (P_fit X V g) p (nat g)"
    unfolding P_fit_def
    by (intro has_shape_div_rows has_shape_fin_nd has_shape_matmul
        [OF has_shape_transpose [OF Xc] t] tt)
  have b: "has_shape (B_fit X Y V g R) p m"
    unfolding B_fit_def
    by (intro has_shape_matmul [OF has_shape_matmul [OF has_shape_matmul
        [OF has_shape_fin_nd [OF w] R] c] has_shape_transpose [OF q]])
  show "has_shape (W (fitted X Y g V R)) p (nat g)"
    and "has_shape (T (fitted X Y g V R)) n (nat g)"
    and "has_shape (Q (fitted X Y g V R)) m (nat g)"
    and "has_shape (U (fitted X Y g V R)) n (nat g)"
    and "has_shape (C (fitted X Y g V R)) (nat g) (nat g)"
    and "has_shape (P (fitted X Y g V R)) p (nat g)"
    and "has_shape (B (fitted X Y g V R)) p m"
    and "length (X_offset (fitted X Y g V R)) = p"
    and "length (Y_offset (fitted X Y g V R)) = m"
    using w t q u c p b X Y by (simp_all add: fitted_def length_mean0 has_shape_def)
qed

lemma fit_shapes:
  assumes "fit eigh inverse_fn X Y g = Inr M"
    and "has_shape X n p" and "has_shape Y n m"
    and "eigh (eigh_arg X Y) = Inr (ev, V)" and "has_shape V p p"
    and "inverse_fn (inv_arg X V g) = Inr R" and "has_shape R (nat g) (nat g)"
  shows "has_shape (W M) p (nat g)" and "has_shape (T M) n (nat g)"
    and "has_shape (Q M) m (nat g)" and "has_shape (U M) n (nat g)"
    and "has_shape (C M) (nat g) (nat g)" and "has_shape (P M) p (nat g)"
    and "has_shape (B M) p m"
    and "length (X_offset M) = p" and "length (Y_offset M) = m"
proof -
  from fit_fields [OF assms(1)] assms(2,4,6)
  have g: "1 \<le> g" "g \<le> int p" and M: "M = fitted X Y g V R"
    by (auto simp: has_shape_def shape1_def)
  show "has_shape (W M) p (nat g)" and "has_shape (T M) n (nat g)"
    and "has_shape (Q M) m (nat g)" and "has_shape (U M) n (nat g)"
    and "has_shape (C M) (nat g) (nat g)" and "has_shape (P M) p (nat g)"
    and "has_shape (B M) p m"
    and "length (X_offset M) = p" and "length (Y_offset M) = m"
    unfolding M by (rule fitted_shapes [OF assms(2,3) g assms(5,7)])+
qed

subsection \<open>The two prediction methods and the signs of the eigenvectors\<close>

lemma eigh_returns_sgn:
  assumes "a = 1 \<or> a = - 1" and "b = 1 \<or> b = - 1"
  shows "eigh_returns (eigh_arg X_ex Y_ex) [9, 36] (V_sgn a b)"
  using assms
  by (auto simp: eigh_returns_def eigh_arg_ex V_sgn_def wf_def matvec_def nd_defs eval_nat_numeral)

lemma select_W_sgn: "select_W (V_sgn a b) 2 = \<lparr>ncols = 2, rows = [[0, a], [b, 0]]\<rparr>"
  by (simp add: select_W_def V_sgn_def nd_defs eval_nat_numeral)

lemma T_fit_sgn: "T_fit X_ex (V_sgn a b) 2 = \<lparr>ncols = 2, rows = [[0, a], [b, 0], [- b, - a]]\<rparr>"
  by (simp add: T_fit_def centred_X_ex select_W_sgn nd_defs eval_nat_numeral)

lemma Q_raw_sgn:
  "Q_raw (centred Y_ex) (T_fit X_ex (V_sgn a b) 2) = \<lparr>ncols = 2, rows = [[0, 3 * a], [6 * b, 0]]\<rparr>"
  by (simp add: Q_raw_def T_fit_sgn centred_Y_ex nd_defs eval_nat_numeral)

lemma Q_fit_sgn:
  assumes "a = 1 \<or> a = - 1" and "b = 1 \<or> b = - 1"
  shows "Q_fit X_ex Y_ex (V_sgn a b) 2 = \<lparr>ncols = 2, rows = [[Fin 0, Fin a], [Fin b, Fin 0]]\<rparr>"
  using assms
  by (auto simp: Q_fit_def Q_of_def Q_raw_sgn nd_defs eval_nat_numeral sqrt_36 sqrt_9)

lemma t_dot_t_sgn:
  assumes "a = 1 \<or> a = - 1" and "b = 1 \<or> b = - 1"
  shows "t_dot_t_fit X_ex (V_sgn a b) 2 = [2, 2]"
  using assms by (auto simp: t_dot_t_fit_def T_fit_sgn nd_defs eval_nat_numeral)

lemma U_fit_sgn:
  assumes "a = 1 \<or> a = - 1" and "b = 1 \<or> b = - 1"
  shows "U_fit X_ex Y_ex (V_sgn a b) 2 =
    \<lparr>ncols = 2, rows = [[Fin (- 2 * b), Fin (2 * a)], [Fin (4 * b), Fin (- a)],
                        [Fin (- 2 * b), Fin (- a)]]\<rparr>"
  by (simp add: U_fit_def Q_fit_sgn [OF assms] centred_Y_ex nd_defs eval_nat_numeral zero_flt_def)

lemma C_fit_sgn:
  assumes "a = 1 \<or> a = - 1" and "b = 1 \<or> b = - 1"
  shows "C_fit X_ex Y_ex (V_sgn a b) 2 = \<lparr>ncols = 2, rows = [[Fin 3, Fin 0], [Fin 0, Fin (3 / 2)]]\<rparr>"
  using assms
  by (auto simp: C_fit_def T_fit_sgn U_fit_sgn t_dot_t_sgn nd_defs eval_nat_numeral zero_flt_def)

lemma P_fit_sgn:
  assumes "a = 1 \<or> a = - 1" and "b = 1 \<or> b = - 1"
  shows "P_fit X_ex (V_sgn a b) 2 = \<lparr>ncols = 2, rows = [[Fin (b / 2), Fin a], [Fin b, Fin (a / 2)]]\<rparr>"
  by (simp add: P_fit_def T_fit_sgn centred_X_ex t_dot_t_sgn [OF assms] nd_defs eval_nat_numeral
      zero_flt_def)

lemma inv_arg_sgn:
  assumes "a = 1 \<or> a = - 1" and "b = 1 \<or> b = - 1"
  shows "inv_arg X_ex (V_sgn a b) 2 =
    \<lparr>ncols = 2, rows = [[Fin 1, Fin (a * b / 2)], [Fin (a * b / 2), Fin 1]]\<rparr>"
  using assms
  by (auto simp: inv_arg_def P_fit_sgn select_W_sgn nd_defs eval_nat_numeral zero_flt_def)

lemma inv_ex_sgn:
  assumes "a = 1 \<or> a = - 1" and "b = 1 \<or> b = - 1"
  shows "inv_ex (inv_arg X_ex (V_sgn a b) 2) = Inr (R_sgn a b)"
  using assms by (auto simp: inv_arg_sgn inv_ex_def R_sgn_def)

lemma B_fit_sgn:
  assumes "a = 1 \<or> a = - 1" and "b = 1 \<or> b = - 1"
  shows "B_fit X_ex Y_ex (V_sgn a b) 2 (R_sgn a b) =
    \<lparr>ncols = 2, rows = [[Fin 2, Fin (- 2)], [Fin (- 1), Fin 4]]\<rparr>"
  using assms
  by (auto simp: B_fit_def select_W_sgn C_fit_sgn Q_fit_sgn R_sgn_def nd_defs eval_nat_numeral
      zero_flt_def)

lemma M_sgn_fields:
  assumes "a = 1 \<or> a = - 1" and "b = 1 \<or> b = - 1"
  shows "X_variables (M_sgn a b) = 2" "components (M_sgn a b) = 2"
    "X_offset (M_sgn a b) = [1, 1]" "Y_offset (M_sgn a b) = [1, 2]"
    "W (M_sgn a b) = \<lparr>ncols = 2, rows = [[0, a], [b, 0]]\<rparr>"
    "Q (M_sgn a b) = \<lparr>ncols = 2, rows = [[Fin 0, Fin a], [Fin b, Fin 0]]\<rparr>"
    "C (M_sgn a b) = \<lparr>ncols = 2, rows = [[Fin 3, Fin 0], [Fin 0, Fin (3 / 2)]]\<rparr>"
    "P (M_sgn a b) = \<lparr>ncols = 2, rows = [[Fin (b / 2), Fin a], [Fin b, Fin (a / 2)]]\<rparr>"
    "B (M_sgn a b) = \<lparr>ncols = 2, rows = [[Fin 2, Fin (- 2)], [Fin (- 1), Fin 4]]\<rparr>"
  by (simp_all add: M_sgn_def fitted_def shape_X_ex select_W_sgn Q_fit_sgn [OF assms]
      C_fit_sgn [OF assms] P_fit_sgn [OF assms] B_fit_sgn [OF assms])
     (simp_all add: mean0_def col_def shape0_def X_ex_def Y_ex_def eval_nat_numeral)

lemma fit_sgn:
  assumes "a = 1 \<or> a = - 1" and "b = 1 \<or> b = - 1"
  shows "fit (eigh_sgn a b) inv_ex X_ex Y_ex 2 = Inr (M_sgn a b)"
  by (simp add: fit_unfold shape_X_ex eigh_arg_ex eigh_sgn_def inv_ex_sgn [OF assms] M_sgn_def)

text \<open>
  The eigenvectors of the example are determined up to their signs. Whichever signs
  \<open>eigh\<close> chooses, the two methods return the same two different results.
\<close>

lemma prediction_differs_for_every_sign:
  assumes "a = 1 \<or> a = - 1" and "b = 1 \<or> b = - 1"
  shows "prediction mem (M_sgn a b) (Arr1 [2, 1]) = Inr (Arr1 [Fin 3, Fin 0])"
    and "prediction_iterative mem_r mem_t (M_sgn a b) (Arr1 [2, 1]) =
           Inr (Arr1 [Fin (5 / 2), Fin 2])"
proof -
  note f = M_sgn_fields [OF assms]
  show "prediction mem (M_sgn a b) (Arr1 [2, 1]) = Inr (Arr1 [Fin 3, Fin 0])"
    by (simp add: prediction_def predict_row_def f nd_defs eval_nat_numeral zero_flt_def)
  have d: "snd (deflate (M_sgn a b) [0..<2] ([Fin 1, Fin 0], [x, y])) = [Fin 0, Fin a]" for x y
    by (simp add: f nd_defs eval_nat_numeral zero_flt_def Let_def)
  have c: "combine (M_sgn a b) [Fin 0, Fin a] = [Fin (5 / 2), Fin 2]"
    using assms by (auto simp: combine_def f nd_defs eval_nat_numeral zero_flt_def)
  have e: "np_empty mem_t 2 = [mem_t 0, mem_t 1]"
    by (simp add: np_empty_def eval_nat_numeral)
  have "vsub [2, 1] (X_offset (M_sgn a b)) = [1, 0 :: real]"
    by (simp add: f vsub_def)
  then show "prediction_iterative mem_r mem_t (M_sgn a b) (Arr1 [2, 1]) =
           Inr (Arr1 [Fin (5 / 2), Fin 2])"
    by (simp add: prediction_iterative_def f(1,2) fin_vec_def e d c)
qed

end
